theory Spec2Isabelle
  imports Main "HOL-Library.Char_ord" "HOL-Library.List_Lexorder" "HOL-Library.Multiset"
begin

section \<open>Status values\<close>

text \<open>
  A TensorFlow \<^verbatim>\<open>Status\<close> is either OK or an error code with a message. A function of
  the builder that returns a \<^verbatim>\<open>Status\<close> and writes its result through an out-parameter
  is modelled as a function into \<open>fail + 'a\<close>: \<open>Inr\<close> is \<^verbatim>\<open>Status::OK()\<close> together with the
  value written, \<open>Inl (Err c m)\<close> is the error status. Two further outcomes are not statuses:
  \<open>Thrown\<close> is a C++ exception leaving the function, \<open>Aborted\<close> is an out-of-range read of a
  \<^verbatim>\<open>std::vector\<close>, a null dereference or a failed \<^verbatim>\<open>CHECK\<close>.
\<close>

datatype Code = INVALID_ARGUMENT | NOT_FOUND | UNIMPLEMENTED | INTERNAL | UNKNOWN

datatype fail = Err Code string | Thrown string | Aborted

datatype Status = OK | Error Code string

section \<open>The source graph\<close>

datatype DataType =
    DT_INVALID | DT_FLOAT | DT_DOUBLE | DT_INT32 | DT_UINT8 | DT_INT16 | DT_INT8
  | DT_STRING | DT_INT64 | DT_BOOL | DT_QINT8 | DT_QUINT8 | DT_QINT32 | DT_QUINT16
  | DT_UINT16 | DT_HALF | DT_UINT32 | DT_UINT64

fun DataType_Name :: "DataType \<Rightarrow> string" where
  "DataType_Name DT_INVALID = ''DT_INVALID''"
| "DataType_Name DT_FLOAT = ''DT_FLOAT''"
| "DataType_Name DT_DOUBLE = ''DT_DOUBLE''"
| "DataType_Name DT_INT32 = ''DT_INT32''"
| "DataType_Name DT_UINT8 = ''DT_UINT8''"
| "DataType_Name DT_INT16 = ''DT_INT16''"
| "DataType_Name DT_INT8 = ''DT_INT8''"
| "DataType_Name DT_STRING = ''DT_STRING''"
| "DataType_Name DT_INT64 = ''DT_INT64''"
| "DataType_Name DT_BOOL = ''DT_BOOL''"
| "DataType_Name DT_QINT8 = ''DT_QINT8''"
| "DataType_Name DT_QUINT8 = ''DT_QUINT8''"
| "DataType_Name DT_QINT32 = ''DT_QINT32''"
| "DataType_Name DT_QUINT16 = ''DT_QUINT16''"
| "DataType_Name DT_UINT16 = ''DT_UINT16''"
| "DataType_Name DT_HALF = ''DT_HALF''"
| "DataType_Name DT_UINT32 = ''DT_UINT32''"
| "DataType_Name DT_UINT64 = ''DT_UINT64''"

text \<open>
  Element values are carried as integers: an integer element is its numeric value, a boolean
  is 0 or 1, and a float or double is its IEEE bit pattern (the builder only copies floating
  point constants, it never computes with them, and the bit pattern of \<^verbatim>\<open>0.0\<close> is 0).

  \<^verbatim>\<open>TensorProto\<close>: the declared shape (one signed size per dimension), the raw byte buffer
  \<^verbatim>\<open>tensor_content\<close> and the per-type repeated value fields.
\<close>

record TensorProto =
  dtype :: DataType
  has_tensor_shape :: bool
  tensor_shape :: "int list"
  tensor_content :: "nat list"
  float_val :: "int list"
  double_val :: "int list"
  int_val :: "int list"
  int64_val :: "int list"
  bool_val :: "int list"

definition TensorProto_default :: TensorProto where
  "TensorProto_default =
     \<lparr>dtype = DT_INVALID, has_tensor_shape = False, tensor_shape = [], tensor_content = [],
      float_val = [], double_val = [], int_val = [], int64_val = [], bool_val = []\<rparr>"

text \<open>\<^verbatim>\<open>Tensor\<close>: element type, shape and the flat element vector.\<close>

record Tensor =
  tensor_dtype :: DataType
  tensor_dims :: "nat list"
  flat :: "int list"

datatype AttrValue =
    AttrS string
  | AttrI int
  | AttrF int
  | AttrB bool
  | AttrType DataType
  | AttrTensor TensorProto
  | AttrListS "string list"
  | AttrListI "int list"

text \<open>
  \<^verbatim>\<open>NodeDef\<close> is what the builder reads of a node through \<^verbatim>\<open>name()\<close>,
  \<^verbatim>\<open>type_string()\<close> (\<^verbatim>\<open>def().op()\<close>), \<^verbatim>\<open>attrs()\<close> (\<^verbatim>\<open>def().attr()\<close>) and
  \<^verbatim>\<open>def().DebugString()\<close>. An edge carries its producer, the producer's output slot and the
  consumer's input slot; a control edge has both slots \<open>-1\<close>. A node has its id in the graph
  (0 is the source sentinel, 1 the sink), its declared input arity and its incoming edges.
\<close>

record NodeDef =
  name :: string
  type_string :: string
  attrs :: "(string \<times> AttrValue) list"
  DebugString :: string

record Edge =
  src :: NodeDef
  src_output :: int
  dst_input :: int

record Node =
  node_def :: NodeDef
  node_id :: nat
  num_inputs :: nat
  in_edges :: "Edge list"

text \<open>TensorFlow's node classes, as far as the builder asks for them.\<close>

definition IsArg :: "NodeDef \<Rightarrow> bool" where
  "IsArg n = (type_string n = ''_Arg'' \<or> type_string n = ''_DeviceArg'')"

definition IsRetval :: "NodeDef \<Rightarrow> bool" where
  "IsRetval n = (type_string n = ''_Retval'' \<or> type_string n = ''_DeviceRetval'')"

definition IsControlFlow :: "NodeDef \<Rightarrow> bool" where
  "IsControlFlow n =
     (type_string n \<in> set [''Switch'', ''RefSwitch'', ''_SwitchN'', ''Merge'', ''RefMerge'',
        ''Enter'', ''RefEnter'', ''Exit'', ''RefExit'', ''NextIteration'', ''RefNextIteration''])"

definition IsSource :: "Node \<Rightarrow> bool" where
  "IsSource n = (node_id n = 0)"

definition IsSink :: "Node \<Rightarrow> bool" where
  "IsSink n = (node_id n = 1)"

definition IsControlEdge :: "Edge \<Rightarrow> bool" where
  "IsControlEdge e = (src_output e = - 1)"

subsection \<open>Attribute access\<close>

text \<open>
  \<^verbatim>\<open>GetNodeAttr(attrs, key, &value)\<close>: an error status when the attribute is missing or holds
  a value of another kind.
\<close>

definition attr_missing :: "string \<Rightarrow> fail" where
  "attr_missing k = Err NOT_FOUND (''No attr named '' @ k @ '' in NodeDef'')"

definition attr_mismatch :: "string \<Rightarrow> fail" where
  "attr_mismatch k = Err INVALID_ARGUMENT (''AttrValue of '' @ k @ '' has another type'')"

definition GetNodeAttr_int :: "(string \<times> AttrValue) list \<Rightarrow> string \<Rightarrow> fail + int" where
  "GetNodeAttr_int as k =
     (case map_of as k of
        None \<Rightarrow> Inl (attr_missing k)
      | Some (AttrI i) \<Rightarrow>
          if - 2147483648 \<le> i \<and> i \<le> 2147483647 then Inr i
          else Inl (Err INVALID_ARGUMENT (''Attr '' @ k @ '' out of range for an int32''))
      | Some _ \<Rightarrow> Inl (attr_mismatch k))"

definition GetNodeAttr_type :: "(string \<times> AttrValue) list \<Rightarrow> string \<Rightarrow> fail + DataType" where
  "GetNodeAttr_type as k =
     (case map_of as k of
        None \<Rightarrow> Inl (attr_missing k)
      | Some (AttrType t) \<Rightarrow> Inr t
      | Some _ \<Rightarrow> Inl (attr_mismatch k))"

definition GetNodeAttr_string :: "(string \<times> AttrValue) list \<Rightarrow> string \<Rightarrow> fail + string" where
  "GetNodeAttr_string as k =
     (case map_of as k of
        None \<Rightarrow> Inl (attr_missing k)
      | Some (AttrS s) \<Rightarrow> Inr s
      | Some _ \<Rightarrow> Inl (attr_mismatch k))"

definition GetNodeAttr_bool :: "(string \<times> AttrValue) list \<Rightarrow> string \<Rightarrow> fail + bool" where
  "GetNodeAttr_bool as k =
     (case map_of as k of
        None \<Rightarrow> Inl (attr_missing k)
      | Some (AttrB b) \<Rightarrow> Inr b
      | Some _ \<Rightarrow> Inl (attr_mismatch k))"

definition GetNodeAttr_float :: "(string \<times> AttrValue) list \<Rightarrow> string \<Rightarrow> fail + int" where
  "GetNodeAttr_float as k =
     (case map_of as k of
        None \<Rightarrow> Inl (attr_missing k)
      | Some (AttrF f) \<Rightarrow> Inr f
      | Some _ \<Rightarrow> Inl (attr_mismatch k))"

definition GetNodeAttr_strings ::
  "(string \<times> AttrValue) list \<Rightarrow> string \<Rightarrow> fail + string list" where
  "GetNodeAttr_strings as k =
     (case map_of as k of
        None \<Rightarrow> Inl (attr_missing k)
      | Some (AttrListS ss) \<Rightarrow> Inr ss
      | Some _ \<Rightarrow> Inl (attr_mismatch k))"

definition GetNodeAttr_ints :: "(string \<times> AttrValue) list \<Rightarrow> string \<Rightarrow> fail + int list" where
  "GetNodeAttr_ints as k =
     (case map_of as k of
        None \<Rightarrow> Inl (attr_missing k)
      | Some (AttrListI is) \<Rightarrow> Inr is
      | Some _ \<Rightarrow> Inl (attr_mismatch k))"

text \<open>
  \<^verbatim>\<open>node.attr().at(key)\<close> on the protobuf map raises when the key is missing;
  \<^verbatim>\<open>.tensor()\<close> and \<^verbatim>\<open>.type()\<close> of a value of another kind give the default instance.
\<close>

definition attr_at :: "(string \<times> AttrValue) list \<Rightarrow> string \<Rightarrow> fail + AttrValue" where
  "attr_at as k =
     (case map_of as k of
        None \<Rightarrow> Inl (Thrown (''key not found: '' @ k))
      | Some v \<Rightarrow> Inr v)"

definition AttrValue_tensor :: "AttrValue \<Rightarrow> TensorProto" where
  "AttrValue_tensor v = (case v of AttrTensor t \<Rightarrow> t | _ \<Rightarrow> TensorProto_default)"

definition AttrValue_type :: "AttrValue \<Rightarrow> DataType" where
  "AttrValue_type v = (case v of AttrType t \<Rightarrow> t | _ \<Rightarrow> DT_INVALID)"

section \<open>Static value resolution\<close>

text \<open>
  \<^verbatim>\<open>GetStaticNodeTensor(node, static_input_map, result)\<close>. A slot of the static input map is
  a pointer to a tensor or null. \<^verbatim>\<open>Tensor::FromProto\<close> belongs to TensorFlow and is taken
  as the parameter \<open>FromProto\<close> (\<open>None\<close> when parsing fails).
\<close>

definition GetStaticNodeTensor ::
  "(TensorProto \<Rightarrow> Tensor option) \<Rightarrow> NodeDef \<Rightarrow> Tensor option list \<Rightarrow> fail + Tensor" where
  "GetStaticNodeTensor FromProto node static_input_map =
     (if IsArg node then
        (case GetNodeAttr_int (attrs node) ''index'' of
           Inl e \<Rightarrow> Inl e
         | Inr arg_index \<Rightarrow>
             if arg_index < 0 \<or> int (length static_input_map) \<le> arg_index then Inl Aborted
             else
               (case static_input_map ! nat arg_index of
                  None \<Rightarrow>
                    Inl (Err INTERNAL
                      (''GetStaticNodeTensor called on _Arg but input tensor is missing from ''
                        @ ''static input map''))
                | Some source_tensor \<Rightarrow> Inr source_tensor))
      else if type_string node = ''Const'' then
        (case attr_at (attrs node) ''value'' of
           Inl e \<Rightarrow> Inl e
         | Inr v \<Rightarrow>
             (case FromProto (AttrValue_tensor v) of
                None \<Rightarrow> Inl (Err INTERNAL ''GetStaticNodeTensor: Const tensor proto parsing failed'')
              | Some t \<Rightarrow> Inr t))
      else
        Inl (Err INTERNAL
          (''GetStaticNodeTensor called on node with type '' @ type_string node
            @ ''; _Arg or Const expected'')))"

subsection \<open>Element conversions\<close>

text \<open>
  C++ conversion of an integer value into the element type \<open>T\<close>: integers wrap to the width
  of \<open>T\<close>, \<^verbatim>\<open>bool\<close> is 1 for every nonzero value, and a float or double (a bit pattern
  here) is only ever assigned from its own type.
\<close>

definition wrap_signed :: "nat \<Rightarrow> int \<Rightarrow> int" where
  "wrap_signed w v = (v + 2 ^ (w - 1)) mod 2 ^ w - 2 ^ (w - 1)"

definition wrap_unsigned :: "nat \<Rightarrow> int \<Rightarrow> int" where
  "wrap_unsigned w v = v mod 2 ^ w"

fun cast_to :: "DataType \<Rightarrow> int \<Rightarrow> int" where
  "cast_to DT_INT8 v = wrap_signed 8 v"
| "cast_to DT_QINT8 v = wrap_signed 8 v"
| "cast_to DT_INT16 v = wrap_signed 16 v"
| "cast_to DT_INT32 v = wrap_signed 32 v"
| "cast_to DT_QINT32 v = wrap_signed 32 v"
| "cast_to DT_INT64 v = wrap_signed 64 v"
| "cast_to DT_UINT8 v = wrap_unsigned 8 v"
| "cast_to DT_QUINT8 v = wrap_unsigned 8 v"
| "cast_to DT_UINT16 v = wrap_unsigned 16 v"
| "cast_to DT_QUINT16 v = wrap_unsigned 16 v"
| "cast_to DT_UINT32 v = wrap_unsigned 32 v"
| "cast_to DT_UINT64 v = wrap_unsigned 64 v"
| "cast_to DT_BOOL v = (if v = 0 then 0 else 1)"
| "cast_to T v = v"

text \<open>\<^verbatim>\<open>sizeof(VecT)\<close> for the instantiations of the constant table.\<close>

fun sizeof_VecT :: "DataType \<Rightarrow> nat" where
  "sizeof_VecT DT_FLOAT = 4"
| "sizeof_VecT DT_DOUBLE = 8"
| "sizeof_VecT DT_INT16 = 2"
| "sizeof_VecT DT_QUINT16 = 2"
| "sizeof_VecT DT_UINT16 = 2"
| "sizeof_VecT DT_INT32 = 4"
| "sizeof_VecT DT_INT64 = 8"
| "sizeof_VecT T = 1"

text \<open>
  \<^verbatim>\<open>port::CopyToArray\<close> copies the raw bytes into the value vector: element \<open>i\<close> is made of
  the bytes \<open>i * sizeof(VecT) ..< (i + 1) * sizeof(VecT)\<close>, least significant byte first, read
  at the signedness of \<open>VecT\<close> (\<^verbatim>\<open>char\<close>, for booleans, is signed).
\<close>

fun decode_le :: "nat list \<Rightarrow> int" where
  "decode_le [] = 0"
| "decode_le (b # bs) = int b + 256 * decode_le bs"

fun chunks :: "nat \<Rightarrow> nat \<Rightarrow> nat list \<Rightarrow> nat list list" where
  "chunks 0 sz bs = []"
| "chunks (Suc k) sz bs = take sz bs # chunks k sz (drop sz bs)"

definition CopyToArray :: "DataType \<Rightarrow> nat list \<Rightarrow> int list" where
  "CopyToArray T content =
     map (\<lambda>c. if T = DT_BOOL then wrap_signed 8 (decode_le c) else cast_to T (decode_le c))
       (chunks (length content div sizeof_VecT T) (sizeof_VecT T) content)"

section \<open>Constant materializer\<close>

text \<open>
  \<^verbatim>\<open>checkpoint::MutableTensorProtoData<T>\<close>: the repeated field in which a \<^verbatim>\<open>TensorProto\<close>
  keeps values of type \<open>T\<close> (TensorFlow's \<^verbatim>\<open>SaveTypeTraits\<close>); the narrow and the
  quantized integer types share \<^verbatim>\<open>int_val\<close>.
\<close>

fun MutableTensorProtoData :: "DataType \<Rightarrow> TensorProto \<Rightarrow> int list" where
  "MutableTensorProtoData DT_FLOAT p = float_val p"
| "MutableTensorProtoData DT_DOUBLE p = double_val p"
| "MutableTensorProtoData DT_INT64 p = int64_val p"
| "MutableTensorProtoData DT_BOOL p = bool_val p"
| "MutableTensorProtoData T p = int_val p"

text \<open>
  The \<^verbatim>\<open>switch (dt)\<close> inside the fill loop of \<^verbatim>\<open>ValuesFromConstNode\<close>: the field read for
  \<open>dt\<close>, \<open>None\<close> for the \<^verbatim>\<open>default\<close> branch.
\<close>

fun switch_val_field :: "DataType \<Rightarrow> TensorProto \<Rightarrow> int list option" where
  "switch_val_field DT_INT32 p = Some (int_val p)"
| "switch_val_field DT_INT64 p = Some (int64_val p)"
| "switch_val_field DT_FLOAT p = Some (float_val p)"
| "switch_val_field DT_BOOL p = Some (bool_val p)"
| "switch_val_field DT_DOUBLE p = Some (double_val p)"
| "switch_val_field dt p = None"

text \<open>
  The fill loop \<^verbatim>\<open>for (auto i = 0; i < n_elements; i++)\<close>, over the indices still to visit,
  with the state \<open>(values, val_lastsaved)\<close>. The loop reads \<^verbatim>\<open>int_val()[i]\<close> whenever the
  field is not empty, also past its end; what such a read returns is \<open>oob i\<close>, an arbitrary
  value. \<open>tf27\<close> is the preprocessor condition
  \<^verbatim>\<open>TF_MAJOR_VERSION > 1 && TF_MINOR_VERSION >= 7\<close>.
\<close>

fun fill_loop ::
  "bool \<Rightarrow> (nat \<Rightarrow> int) \<Rightarrow> DataType \<Rightarrow> TensorProto \<Rightarrow> nat list \<Rightarrow> int list \<times> int
     \<Rightarrow> fail + int list" where
  "fill_loop tf27 oob T tensor [] (values, val_lastsaved) = Inr values"
| "fill_loop tf27 oob T tensor (i # is) (values, val_lastsaved) =
     (case switch_val_field T tensor of
        None \<Rightarrow>
          Inl (Err UNIMPLEMENTED
            (''Encountered unknown element type '' @ DataType_Name T @ '' on an empty tensor''))
      | Some field \<Rightarrow>
          (let val_size = length field;
               val_i = (if val_size > 0
                        then cast_to T (if i < val_size then field ! i else oob i)
                        else cast_to T 0)
           in if val_size = 0 then
                (if tf27 then fill_loop tf27 oob T tensor is (values, val_lastsaved)
                 else Inl (Err INVALID_ARGUMENT ''Empty values vector''))
              else if i < val_size then
                fill_loop tf27 oob T tensor is (values[i := val_i], val_i)
              else
                fill_loop tf27 oob T tensor is (values[i := val_lastsaved], val_lastsaved)))"

text \<open>
  The element count of \<^verbatim>\<open>ValuesFromConstNode\<close>: \<^verbatim>\<open>int64 n_elements = 1\<close>, multiplied by each
  dimension in turn. The product is taken in 64 bits and wraps around.
\<close>

definition n_elements_of :: "int list \<Rightarrow> int" where
  "n_elements_of shape = foldl (\<lambda>n d. wrap_signed 64 (n * d)) 1 shape"

text \<open>
  \<^verbatim>\<open>values->resize(n_elements)\<close> takes its argument as a \<^verbatim>\<open>size_t\<close>; a count that is
  negative, or above \<^verbatim>\<open>max_size()\<close> of the vector, raises \<^verbatim>\<open>std::length_error\<close>. Memory is
  not bounded otherwise.
\<close>

definition vector_max_size :: "DataType \<Rightarrow> int" where
  "vector_max_size T = (2 ^ 63 - 1) div int (sizeof_VecT T)"

text \<open>
  \<^verbatim>\<open>ValuesFromConstNode<T, VecT>(node, &const_tensor_shape, &values)\<close>, called with an empty
  \<open>values\<close>; the result is the shape proto and the values. The counter of the fill loop is
  an \<^verbatim>\<open>int\<close>: a loop that runs through index \<open>2^31 - 1\<close> with more elements to fill
  overflows it, which is undefined behaviour, the outcome \<open>Aborted\<close>.
\<close>

definition ValuesFromConstNode ::
  "bool \<Rightarrow> (nat \<Rightarrow> int) \<Rightarrow> DataType \<Rightarrow> NodeDef \<Rightarrow> fail + (int list \<times> int list)" where
  "ValuesFromConstNode tf27 oob T node =
     (if type_string node \<noteq> ''Const'' then Inl (Err INVALID_ARGUMENT ''Node not a Const'')
      else
        (case attr_at (attrs node) ''dtype'' of
           Inl e \<Rightarrow> Inl e
         | Inr dv \<Rightarrow>
             if AttrValue_type dv \<noteq> T then
               Inl (Err INVALID_ARGUMENT
                 (''Invalid data type defined for Const. Defined: ''
                   @ DataType_Name (AttrValue_type dv)))
             else
               (case attr_at (attrs node) ''value'' of
                  Inl e \<Rightarrow> Inl e
                | Inr vv \<Rightarrow>
                    (let tensor = AttrValue_tensor vv;
                         tensor_values = MutableTensorProtoData T tensor;
                         shape = tensor_shape tensor
                     in if tensor_values \<noteq> [] \<and> has_tensor_shape tensor \<and> length shape = 1
                           \<and> shape ! 0 = int (length tensor_values)
                        then Inr (shape, map (cast_to T) tensor_values)
                        else
                          (let tensor_content_size = length (tensor_content tensor)
                           in if tensor_content_size mod sizeof_VecT T \<noteq> 0 then Inl Aborted
                              else if tensor_content_size = 0 then
                                (if list_ex (\<lambda>d. d < 0) shape then
                                   Inl (Err INVALID_ARGUMENT
                                     ''Const node has empty tensor and an unknown dimension size'')
                                 else
                                   (let n_elements = n_elements_of shape
                                    in if n_elements < 0 \<or> vector_max_size T < n_elements
                                       then Inl (Thrown ''vector::_M_default_append'')
                                       else
                                         (case fill_loop tf27 oob T tensor
                                                 [0..<nat (min n_elements (2 ^ 31))]
                                                 (replicate (nat n_elements) 0, cast_to T 0) of
                                            Inl e \<Rightarrow> Inl e
                                          | Inr values \<Rightarrow>
                                              if 2 ^ 31 \<le> n_elements then Inl Aborted
                                              else Inr (shape, values))))
                              else Inr (shape, CopyToArray T (tensor_content tensor)))))))"

text \<open>
  The element types of \<^verbatim>\<open>Builder::TF_NGRAPH_CONST_MAP\<close>: each is bound to
  \<^verbatim>\<open>MakeConstOp<T>\<close> (for \<^verbatim>\<open>DT_BOOL\<close>, \<^verbatim>\<open>MakeConstOp<bool, char>\<close>).
\<close>

definition TF_NGRAPH_CONST_MAP_keys :: "DataType list" where
  "TF_NGRAPH_CONST_MAP_keys =
     [DT_FLOAT, DT_DOUBLE, DT_INT8, DT_INT16, DT_QINT8, DT_QUINT8, DT_QUINT16, DT_INT32,
      DT_INT64, DT_UINT8, DT_UINT16, DT_BOOL]"

subsection \<open>Reading a tensor back\<close>

text \<open>
  \<^verbatim>\<open>ConvertTensorDataToVector<Ttensor, Tvector>\<close> converts each element with the C++
  conversion from \<open>Ttensor\<close> to \<open>Tvector\<close>, the parameter \<open>conv\<close>;
  \<^verbatim>\<open>TensorDataToVector<T>\<close> copies when the tensor already has type \<open>T\<close>.
\<close>

definition ConvertTensorDataToVector ::
  "(DataType \<Rightarrow> DataType \<Rightarrow> int \<Rightarrow> int) \<Rightarrow> DataType \<Rightarrow> DataType \<Rightarrow> Tensor \<Rightarrow> int list" where
  "ConvertTensorDataToVector conv Ttensor Tvector tensor = map (conv Ttensor Tvector) (flat tensor)"

definition TensorDataToVector ::
  "(DataType \<Rightarrow> DataType \<Rightarrow> int \<Rightarrow> int) \<Rightarrow> DataType \<Rightarrow> Tensor \<Rightarrow> fail + int list" where
  "TensorDataToVector conv T tensor =
     (let dt = tensor_dtype tensor
      in if dt = T then Inr (flat tensor)
         else if dt \<in> set [DT_FLOAT, DT_DOUBLE, DT_INT8, DT_INT16, DT_INT32, DT_INT64, DT_UINT8,
                            DT_UINT16, DT_UINT32, DT_UINT64, DT_BOOL]
         then Inr (ConvertTensorDataToVector conv dt T tensor)
         else
           Inl (Err INTERNAL
             (''TensorDataToVector: tensor has element type '' @ DataType_Name dt
               @ '', vector has type '' @ DataType_Name T @ ''; don't know how to convert'')))"

text \<open>
  \<^verbatim>\<open>Node::input_edge\<close>, \<^verbatim>\<open>Node::input_node\<close> and \<^verbatim>\<open>Node::input_edges\<close> of TensorFlow's
  graph API.
\<close>

definition input_edge :: "Node \<Rightarrow> int \<Rightarrow> fail + Edge" where
  "input_edge n idx =
     (if idx < 0 \<or> int (num_inputs n) \<le> idx then
        Inl (Err INVALID_ARGUMENT (''Invalid input_edge index for node '' @ name (node_def n)))
      else
        (case find (\<lambda>e. dst_input e = idx) (in_edges n) of
           None \<Rightarrow> Inl (Err NOT_FOUND (''Could not find input edge for '' @ name (node_def n)))
         | Some e \<Rightarrow> Inr e))"

definition input_node :: "Node \<Rightarrow> int \<Rightarrow> fail + NodeDef" where
  "input_node n idx = (case input_edge n idx of Inl e \<Rightarrow> Inl e | Inr e \<Rightarrow> Inr (src e))"

fun place_edges :: "nat \<Rightarrow> Edge list \<Rightarrow> Edge option list \<Rightarrow> fail + Edge option list" where
  "place_edges k [] slots = Inr slots"
| "place_edges k (e # es) slots =
     (if IsControlEdge e then place_edges k es slots
      else if dst_input e < 0 \<or> int k \<le> dst_input e then
        Inl (Err INTERNAL ''Invalid edge input number'')
      else if slots ! nat (dst_input e) \<noteq> None then
        Inl (Err INTERNAL ''Duplicate edge input number'')
      else place_edges k es (slots[nat (dst_input e) := Some e]))"

definition input_edges :: "Node \<Rightarrow> fail + Edge list" where
  "input_edges n =
     (case place_edges (num_inputs n) (in_edges n) (replicate (num_inputs n) None) of
        Inl e \<Rightarrow> Inl e
      | Inr slots \<Rightarrow>
          if list_ex (\<lambda>s. s = None) slots then
            Inl (Err INVALID_ARGUMENT ''Missing edge input number'')
          else Inr (map the slots))"

text \<open>\<^verbatim>\<open>GetStaticInputVector<T>(op, input_index, static_input_map, &vector)\<close>.\<close>

definition GetStaticInputVector ::
  "(TensorProto \<Rightarrow> Tensor option) \<Rightarrow> (DataType \<Rightarrow> DataType \<Rightarrow> int \<Rightarrow> int) \<Rightarrow> DataType \<Rightarrow> Node
     \<Rightarrow> int \<Rightarrow> Tensor option list \<Rightarrow> fail + int list" where
  "GetStaticInputVector FromProto conv T op' input_index static_input_map =
     (case input_node op' input_index of
        Inl e \<Rightarrow> Inl e
      | Inr input_node' \<Rightarrow>
          (case GetStaticNodeTensor FromProto input_node' static_input_map of
             Inl e \<Rightarrow> Inl e
           | Inr input_tensor \<Rightarrow> TensorDataToVector conv T input_tensor))"

text \<open>
  Modelled from the spec: \<^verbatim>\<open>Tensor::FromProto\<close> is TensorFlow library code, absent from the
  sources. The spec (Static Value Resolver, Constant Materializer) has the constant's packed
  payload decoded as a raw byte buffer, whose length must be an exact multiple of the element
  size, or else from the per-type value list, "filling any unspecified trailing elements by
  repeating the last successfully read value"; with no value at all the elements are zero.
\<close>

definition fill_forward :: "DataType \<Rightarrow> int list \<Rightarrow> nat \<Rightarrow> int list" where
  "fill_forward T vals n =
     map (\<lambda>i. if vals = [] then 0 else cast_to T (vals ! min i (length vals - 1))) [0..<n]"

definition Tensor_FromProto :: "TensorProto \<Rightarrow> Tensor option" where
  "Tensor_FromProto p =
     (if list_ex (\<lambda>d. d < 0) (tensor_shape p) then None
      else if tensor_content p \<noteq> [] then
        (if length (tensor_content p) mod sizeof_VecT (dtype p) \<noteq> 0 then None
         else Some \<lparr>tensor_dtype = dtype p, tensor_dims = map nat (tensor_shape p),
                    flat = CopyToArray (dtype p) (tensor_content p)\<rparr>)
      else Some \<lparr>tensor_dtype = dtype p, tensor_dims = map nat (tensor_shape p),
                 flat = fill_forward (dtype p) (MutableTensorProtoData (dtype p) p)
                          (nat (prod_list (tensor_shape p)))\<rparr>)"

section \<open>The target IR\<close>

text \<open>
  An \<^verbatim>\<open>ng::Output<ng::Node>\<close> is a node and an output index. Nodes are shared and are
  mutated after construction (provenance tags, the default-layout flag), and the handlers
  compare outputs by identity, so the nodes live in a store: the list of all nodes
  constructed so far, a node's address being its position. A partial shape is of unknown
  rank (\<open>None\<close>) or a list of dimensions, each known or not.
\<close>

datatype element_type =
  et_dynamic | et_boolean | et_f16 | et_f32 | et_f64 | et_i8 | et_i16 | et_i32 | et_i64
  | et_u8 | et_u16 | et_u32 | et_u64

type_synonym PartialShape = "nat option list option"

type_synonym ng_output = "nat \<times> nat"

datatype ng_arg =
    ArgEt element_type
  | ArgShape "nat list"
  | ArgInts "int list"
  | ArgStrings "string list"
  | ArgBool bool
  | ArgString string

record ng_node =
  ng_type :: string
  ng_inputs :: "ng_output list"
  ng_args :: "ng_arg list"
  ng_outputs :: "(element_type \<times> PartialShape) list"
  provenance_tags :: "string set"
  needs_default_layout :: bool

type_synonym heap = "ng_node list"

definition is_static :: "PartialShape \<Rightarrow> bool" where
  "is_static ps = (case ps of None \<Rightarrow> False | Some ds \<Rightarrow> \<not> list_ex (\<lambda>d. d = None) ds)"

definition to_shape :: "PartialShape \<Rightarrow> nat list" where
  "to_shape ps = (case ps of None \<Rightarrow> [] | Some ds \<Rightarrow> map the ds)"

definition static_shape :: "nat list \<Rightarrow> PartialShape" where
  "static_shape sh = Some (map Some sh)"

definition output_type :: "heap \<Rightarrow> ng_output \<Rightarrow> element_type \<times> PartialShape" where
  "output_type h out = ng_outputs (h ! fst out) ! snd out"

definition get_partial_shape :: "heap \<Rightarrow> ng_output \<Rightarrow> PartialShape" where
  "get_partial_shape h out = snd (output_type h out)"

definition get_element_type :: "heap \<Rightarrow> ng_output \<Rightarrow> element_type" where
  "get_element_type h out = fst (output_type h out)"

text \<open>\<^verbatim>\<open>get_shape()\<close> raises on a shape that is not static.\<close>

definition get_shape :: "heap \<Rightarrow> ng_output \<Rightarrow> fail + nat list" where
  "get_shape h out =
     (if is_static (get_partial_shape h out) then Inr (to_shape (get_partial_shape h out))
      else Inl (Thrown ''get_shape was called on a descriptor::Tensor with dynamic shape''))"

definition shape_size :: "nat list \<Rightarrow> nat" where
  "shape_size sh = prod_list sh"

text \<open>
  Constructing a node runs its constructor's validation and type inference, which belong to
  the nGraph library: \<open>infer\<close>, a parameter, gives the types of the outputs from the node's
  type name, the types of its inputs and its other constructor arguments, or \<open>None\<close> when
  the constructor raises. Three node types are read by the driver itself and are fixed here:
  a \<^verbatim>\<open>Parameter\<close> and a \<^verbatim>\<open>Constant\<close> have the element type and the static shape they are
  given (a constant takes one value or as many as its shape has elements), a \<^verbatim>\<open>Result\<close>
  has the type of its input.
\<close>

type_synonym infer_fn =
  "string \<Rightarrow> (element_type \<times> PartialShape) list \<Rightarrow> ng_arg list
     \<Rightarrow> (element_type \<times> PartialShape) list option"

fun values_count :: "ng_arg \<Rightarrow> nat option" where
  "values_count (ArgInts vs) = Some (length vs)"
| "values_count (ArgStrings vs) = Some (length vs)"
| "values_count a = None"

definition infer_types :: "infer_fn \<Rightarrow> infer_fn" where
  "infer_types infer ty ins args =
     (if ty = ''Parameter'' then
        (case args of
           [ArgEt et, ArgShape sh] \<Rightarrow> Some [(et, static_shape sh)]
         | _ \<Rightarrow> None)
      else if ty = ''Constant'' then
        (case args of
           [ArgEt et, ArgShape sh, vs] \<Rightarrow>
             (case values_count vs of
                None \<Rightarrow> None
              | Some k \<Rightarrow>
                  if k = 1 \<or> k = shape_size sh then Some [(et, static_shape sh)] else None)
         | _ \<Rightarrow> None)
      else if ty = ''Result'' then
        (case ins of [t] \<Rightarrow> Some [t] | _ \<Rightarrow> None)
      else infer ty ins args)"

text \<open>\<^verbatim>\<open>std::make_shared<TOpType>(args...)\<close>: the new node's address and the extended store.\<close>

definition make_shared ::
  "infer_fn \<Rightarrow> string \<Rightarrow> ng_output list \<Rightarrow> ng_arg list \<Rightarrow> heap \<Rightarrow> fail + (nat \<times> heap)" where
  "make_shared infer ty ins args h =
     (case infer_types infer ty (map (output_type h) ins) args of
        None \<Rightarrow> Inl (Thrown (''Check failed while constructing '' @ ty))
      | Some outs \<Rightarrow>
          Inr (length h,
               h @ [\<lparr>ng_type = ty, ng_inputs = ins, ng_args = args, ng_outputs = outs,
                     provenance_tags = {}, needs_default_layout = False\<rparr>]))"

text \<open>
  \<^verbatim>\<open>Builder::SetTracingInfo(op_name, ng_node)\<close> adds the provenance tag \<open>op_name\<close> to the
  node of the output (the friendly name it also sets and the optional log line are left
  out: nothing reads them).
\<close>

definition SetTracingInfo :: "string \<Rightarrow> ng_output \<Rightarrow> heap \<Rightarrow> heap" where
  "SetTracingInfo op_name ng_node h =
     h[fst ng_node := (h ! fst ng_node)
        \<lparr>provenance_tags := insert op_name (provenance_tags (h ! fst ng_node))\<rparr>]"

text \<open>\<^verbatim>\<open>ConstructNgNode<TOpType>(op_name, args...)\<close>: construct, then tag.\<close>

definition ConstructNgNode ::
  "infer_fn \<Rightarrow> string \<Rightarrow> string \<Rightarrow> ng_output list \<Rightarrow> ng_arg list \<Rightarrow> heap
     \<Rightarrow> fail + (ng_output \<times> heap)" where
  "ConstructNgNode infer ty op_name ins args h =
     (case make_shared infer ty ins args h of
        Inl e \<Rightarrow> Inl e
      | Inr (a, h') \<Rightarrow> Inr ((a, 0), SetTracingInfo op_name (a, 0) h'))"

section \<open>Output map and input resolution\<close>

text \<open>
  The state of one translation: the store of target nodes and \<^verbatim>\<open>Builder::OpMap\<close>, from a
  source node's name to the outputs produced for it.
\<close>

record state =
  ng_heap :: heap
  ng_op_map :: "string \<Rightarrow> ng_output list option"

definition SaveNgOp ::
  "(string \<Rightarrow> ng_output list option) \<Rightarrow> string \<Rightarrow> ng_output
     \<Rightarrow> (string \<Rightarrow> ng_output list option)" where
  "SaveNgOp m op_name output_node =
     m(op_name \<mapsto> (case m op_name of None \<Rightarrow> [] | Some outs \<Rightarrow> outs) @ [output_node])"

definition ValidateInputCount :: "Node \<Rightarrow> nat \<Rightarrow> fail + unit" where
  "ValidateInputCount op' count' =
     (if num_inputs op' \<noteq> count' then
        Inl (Err INVALID_ARGUMENT
          (''\"'' @ name (node_def op') @ ''\" requires a different number of input(s)''))
      else Inr ())"

definition GetInputNode ::
  "(string \<Rightarrow> ng_output list option) \<Rightarrow> Node \<Rightarrow> nat \<Rightarrow> fail + ng_output" where
  "GetInputNode m op' input_idx =
     (case input_edges op' of
        Inl e \<Rightarrow> Inl e
      | Inr edges \<Rightarrow>
          if length edges \<le> input_idx then Inl (Err NOT_FOUND ''Edge not found'')
          else
            (let src_output_idx = nat (src_output (edges ! input_idx))
             in case input_node op' (int input_idx) of
                  Inl e \<Rightarrow> Inl e
                | Inr tf_input \<Rightarrow>
                    (case m (name tf_input) of
                       None \<Rightarrow> Inl (Err NOT_FOUND (''Ngraph op not found for '' @ name tf_input))
                     | Some ng_op \<Rightarrow>
                         if length ng_op \<le> src_output_idx then
                           Inl (Err NOT_FOUND ''Input node not found at index'')
                         else Inr (ng_op ! src_output_idx))))"

text \<open>
  \<^verbatim>\<open>GetInputNodes(ng_op_map, op, r0, ..., rk)\<close>: the arity check, then the inputs
  \<open>0 .. k\<close> in order; \<open>GetInputNodes_from\<close> is the recursion of \<^verbatim>\<open>detail::GetInputNodes\<close>.
\<close>

fun GetInputNodes_from ::
  "(string \<Rightarrow> ng_output list option) \<Rightarrow> Node \<Rightarrow> nat \<Rightarrow> nat \<Rightarrow> fail + ng_output list" where
  "GetInputNodes_from m op' index 0 = Inr []"
| "GetInputNodes_from m op' index (Suc remaining) =
     (case GetInputNode m op' index of
        Inl e \<Rightarrow> Inl e
      | Inr r \<Rightarrow>
          (case GetInputNodes_from m op' (index + 1) remaining of
             Inl e \<Rightarrow> Inl e
           | Inr rs \<Rightarrow> Inr (r # rs)))"

definition GetInputNodes ::
  "(string \<Rightarrow> ng_output list option) \<Rightarrow> Node \<Rightarrow> nat \<Rightarrow> fail + ng_output list" where
  "GetInputNodes m op' args_len =
     (case ValidateInputCount op' args_len of
        Inl e \<Rightarrow> Inl e
      | Inr u \<Rightarrow> GetInputNodes_from m op' 0 args_len)"

section \<open>Handlers\<close>

text \<open>
  What the handlers use from outside the builder's source file is collected in one record:
  nGraph's type inference, \<^verbatim>\<open>util::TFDataTypeToNGraphElementType\<close>, \<^verbatim>\<open>util::GetEnv\<close>, the
  layout and padding helpers of the convolution handlers, the C++ element conversion, the
  version switch and the out-of-range read of the constant decoder, the validation done by
  the constructor of \<^verbatim>\<open>ng::Function\<close>, the rewrite passes, and the bodies of the handlers
  that are not embedded below.
\<close>

record ext =
  x_infer :: infer_fn
  x_TFDataTypeToNGraphElementType :: "DataType \<Rightarrow> fail + element_type"
  x_GetEnv :: "string \<Rightarrow> string"
  x_NHWCtoHW :: "bool \<Rightarrow> int list \<Rightarrow> nat list"
  x_NHWCtoNCHW :: "string \<Rightarrow> bool \<Rightarrow> ng_output \<Rightarrow> heap \<Rightarrow> fail + (ng_output \<times> heap)"
  x_NCHWtoNHWC :: "string \<Rightarrow> bool \<Rightarrow> ng_output \<Rightarrow> heap \<Rightarrow> fail + (ng_output \<times> heap)"
  x_Transpose :: "nat list \<Rightarrow> ng_output \<Rightarrow> heap \<Rightarrow> fail + (ng_output \<times> heap)"
  x_MakePadding ::
    "string \<Rightarrow> nat list \<Rightarrow> nat list \<Rightarrow> nat list \<Rightarrow> nat list \<Rightarrow> int list \<times> int list"
  x_conv :: "DataType \<Rightarrow> DataType \<Rightarrow> int \<Rightarrow> int"
  x_tf27 :: bool
  x_oob :: "nat \<Rightarrow> int"
  x_function_check :: "heap \<Rightarrow> nat list \<Rightarrow> nat list \<Rightarrow> string option"
  x_run_passes :: "string list \<Rightarrow> heap \<Rightarrow> heap"
  x_other_handler :: "string \<Rightarrow> Node \<Rightarrow> Tensor option list \<Rightarrow> state \<Rightarrow> fail + state"

type_synonym handler = "Node \<Rightarrow> Tensor option list \<Rightarrow> state \<Rightarrow> fail + state"

text \<open>
  \<^verbatim>\<open>TranslateUnaryOp(op, static_input_map, ng_op_map, create_unary_op)\<close>. The construction
  function may construct nodes, so it takes and returns the store.
\<close>

definition TranslateUnaryOp ::
  "Node \<Rightarrow> state \<Rightarrow> (ng_output \<Rightarrow> heap \<Rightarrow> fail + (ng_output \<times> heap)) \<Rightarrow> fail + state" where
  "TranslateUnaryOp op' s create_unary_op =
     (case GetInputNodes (ng_op_map s) op' 1 of
        Inl e \<Rightarrow> Inl e
      | Inr ins \<Rightarrow>
          (let ng_input = ins ! 0
           in case create_unary_op ng_input (ng_heap s) of
                Inl e \<Rightarrow> Inl e
              | Inr (ng_node, h) \<Rightarrow>
                  Inr \<lparr>ng_heap =
                         (if ng_node \<noteq> ng_input then SetTracingInfo (name (node_def op')) ng_node h
                          else h),
                       ng_op_map = SaveNgOp (ng_op_map s) (name (node_def op')) ng_node\<rparr>))"

text \<open>\<^verbatim>\<open>TranslateUnaryOp<T>\<close>: the one-to-one case, \<open>T\<close> given by its type name.\<close>

definition TranslateUnaryOp_T :: "ext \<Rightarrow> string \<Rightarrow> handler" where
  "TranslateUnaryOp_T x T op' static_input_map s =
     TranslateUnaryOp op' s (\<lambda>n. ConstructNgNode (x_infer x) T (name (node_def op')) [n] [])"

definition TranslateBinaryOp ::
  "Node \<Rightarrow> state \<Rightarrow> (ng_output \<Rightarrow> ng_output \<Rightarrow> heap \<Rightarrow> fail + (ng_output \<times> heap))
     \<Rightarrow> fail + state" where
  "TranslateBinaryOp op' s create_binary_op =
     (case GetInputNodes (ng_op_map s) op' 2 of
        Inl e \<Rightarrow> Inl e
      | Inr ins \<Rightarrow>
          (let ng_lhs = ins ! 0; ng_rhs = ins ! 1
           in case create_binary_op ng_lhs ng_rhs (ng_heap s) of
                Inl e \<Rightarrow> Inl e
              | Inr (ng_node, h) \<Rightarrow>
                  Inr \<lparr>ng_heap =
                         (if ng_node \<noteq> ng_lhs \<and> ng_node \<noteq> ng_rhs
                          then SetTracingInfo (name (node_def op')) ng_node h
                          else h),
                       ng_op_map = SaveNgOp (ng_op_map s) (name (node_def op')) ng_node\<rparr>))"

definition TranslateBinaryOp_T :: "ext \<Rightarrow> string \<Rightarrow> handler" where
  "TranslateBinaryOp_T x T op' static_input_map s =
     TranslateBinaryOp op' s
       (\<lambda>ng_lhs ng_rhs. ConstructNgNode (x_infer x) T (name (node_def op')) [ng_lhs, ng_rhs] [])"

definition TranslateIdentityOp :: handler where
  "TranslateIdentityOp op' static_input_map s =
     (case GetInputNodes (ng_op_map s) op' 1 of
        Inl e \<Rightarrow> Inl e
      | Inr ins \<Rightarrow> Inr (s\<lparr>ng_op_map := SaveNgOp (ng_op_map s) (name (node_def op')) (ins ! 0)\<rparr>))"

text \<open>The handler registered for \<^verbatim>\<open>NoOp\<close>.\<close>

definition TranslateNoOp :: handler where
  "TranslateNoOp op' static_input_map s = Inr s"

text \<open>
  \<^verbatim>\<open>TF_RETURN_IF_ERROR\<close>: a failure of the first computation is returned at once (an
  exception leaves the function the same way), otherwise the handler goes on with the
  value.
\<close>

definition RETURN_IF_ERROR :: "fail + 'a \<Rightarrow> ('a \<Rightarrow> fail + 'b) \<Rightarrow> fail + 'b" where
  "RETURN_IF_ERROR m f = (case m of Inl e \<Rightarrow> Inl e | Inr v \<Rightarrow> f v)"

definition VecStrCmp :: "string list \<Rightarrow> string list \<Rightarrow> bool" where
  "VecStrCmp a b = (a = b)"

fun StrJoin :: "string list \<Rightarrow> string \<Rightarrow> string" where
  "StrJoin [] sep = []"
| "StrJoin [a] sep = a"
| "StrJoin (a # b # bs) sep = a @ sep @ StrJoin (b # bs) sep"

text \<open>Saving the output of a handler under the node's name.\<close>

definition save :: "Node \<Rightarrow> state \<Rightarrow> ng_output \<times> heap \<Rightarrow> state" where
  "save op' s r =
     \<lparr>ng_heap = snd r, ng_op_map = SaveNgOp (ng_op_map s) (name (node_def op')) (fst r)\<rparr>"

subsection \<open>BiasAdd\<close>

definition TranslateBiasAddOp :: "ext \<Rightarrow> handler" where
  "TranslateBiasAddOp x op' static_input_map s =
     RETURN_IF_ERROR (GetInputNodes (ng_op_map s) op' 2) (\<lambda>ins.
       let ng_input = ins ! 0; ng_bias = ins ! 1;
           tf_data_format =
             (case GetNodeAttr_string (attrs (node_def op')) ''data_format'' of
                Inl e \<Rightarrow> ''NHWC'' | Inr f \<Rightarrow> f)
       in if tf_data_format \<noteq> ''NHWC'' \<and> tf_data_format \<noteq> ''NCHW'' then
            Inl (Err INVALID_ARGUMENT ''BiasAdd data format is neither NHWC nor NCHW'')
          else
            RETURN_IF_ERROR (get_shape (ng_heap s) ng_input) (\<lambda>ng_input_shape.
            RETURN_IF_ERROR (get_shape (ng_heap s) ng_bias) (\<lambda>ng_bias_shape.
              if length ng_bias_shape \<noteq> 1 then
                Inl (Err INVALID_ARGUMENT ''Bias argument to BiasAdd does not have one dimension'')
              else
                RETURN_IF_ERROR
                  (if tf_data_format = ''NCHW'' then
                     (if length ng_input_shape \<le> 1 then Inl Aborted
                      else
                        (let channel_dim = ng_input_shape ! 1;
                             target_shape =
                               map (\<lambda>i. if i = 1 then int channel_dim else 1)
                                 [0..<length ng_input_shape]
                         in RETURN_IF_ERROR
                              (make_shared (x_infer x) ''Constant'' []
                                 [ArgEt et_i64, ArgShape [length ng_input_shape],
                                  ArgInts target_shape] (ng_heap s))
                              (\<lambda>(target_shape_node, h).
                                 ConstructNgNode (x_infer x) ''Reshape'' (name (node_def op'))
                                   [ng_bias, (target_shape_node, 0)] [ArgBool False] h)))
                   else Inr (ng_bias, ng_heap s))
                  (\<lambda>(ng_bias_reshaped, h).
                     RETURN_IF_ERROR
                       (ConstructNgNode (x_infer x) ''Add'' (name (node_def op'))
                          [ng_input, ng_bias_reshaped] [] h)
                       (\<lambda>ng_add. Inr (save op' s ng_add))))))"

subsection \<open>Const\<close>

text \<open>
  Modelled from the spec: \<^verbatim>\<open>util::TFTensorShapeToNGraphShape\<close> is defined outside the
  builder's source file. The spec has element type and shape "resolved from the caller's
  declared input shapes": the dimensions of the TensorFlow shape, unchanged.
\<close>

definition TFTensorShapeToNGraphShape :: "nat list \<Rightarrow> fail + nat list" where
  "TFTensorShapeToNGraphShape tf_shape = Inr tf_shape"

text \<open>
  \<^verbatim>\<open>MakeConstOp<T, VecT>(op, et, ng_node)\<close>. Building a \<^verbatim>\<open>TensorShape\<close> from a shape proto
  with a negative dimension fails a \<^verbatim>\<open>CHECK\<close>.
\<close>

definition MakeConstOp ::
  "ext \<Rightarrow> DataType \<Rightarrow> Node \<Rightarrow> element_type \<Rightarrow> heap \<Rightarrow> fail + (ng_output \<times> heap)" where
  "MakeConstOp x T op' et h =
     RETURN_IF_ERROR (ValuesFromConstNode (x_tf27 x) (x_oob x) T (node_def op'))
       (\<lambda>(shape_proto, const_values).
          if list_ex (\<lambda>d. d < 0) shape_proto then Inl Aborted
          else
            RETURN_IF_ERROR (TFTensorShapeToNGraphShape (map nat shape_proto)) (\<lambda>ng_shape.
              ConstructNgNode (x_infer x) ''Constant'' (name (node_def op')) []
                [ArgEt et, ArgShape ng_shape, ArgInts const_values] h))"

definition TF_NGRAPH_CONST_MAP :: "(DataType \<times> element_type) list" where
  "TF_NGRAPH_CONST_MAP =
     [(DT_FLOAT, et_f32), (DT_DOUBLE, et_f64), (DT_INT8, et_i8), (DT_INT16, et_i16),
      (DT_QINT8, et_i8), (DT_QUINT8, et_u8), (DT_QUINT16, et_u16), (DT_INT32, et_i32),
      (DT_INT64, et_i64), (DT_UINT8, et_u8), (DT_UINT16, et_u16), (DT_BOOL, et_boolean)]"

definition TranslateConstOp :: "ext \<Rightarrow> handler" where
  "TranslateConstOp x op' static_input_map s =
     RETURN_IF_ERROR (GetNodeAttr_type (attrs (node_def op')) ''dtype'') (\<lambda>dtype'.
       case map_of TF_NGRAPH_CONST_MAP dtype' of
         None \<Rightarrow>
           Inl (Err UNIMPLEMENTED
             (''Failed to translate Constant with TF type:'' @ DataType_Name dtype'))
       | Some et \<Rightarrow>
           RETURN_IF_ERROR (MakeConstOp x dtype' op' et (ng_heap s))
             (\<lambda>ng_node. Inr (save op' s ng_node)))"

subsection \<open>Fused operators\<close>

definition TranslateFusedMatMulOp :: "ext \<Rightarrow> handler" where
  "TranslateFusedMatMulOp x op' static_input_map s =
     RETURN_IF_ERROR (GetNodeAttr_int (attrs (node_def op')) ''num_args'') (\<lambda>num_args.
     RETURN_IF_ERROR (GetNodeAttr_strings (attrs (node_def op')) ''fused_ops'') (\<lambda>fused_ops.
     RETURN_IF_ERROR (GetNodeAttr_bool (attrs (node_def op')) ''transpose_a'') (\<lambda>transpose_a.
     RETURN_IF_ERROR (GetNodeAttr_bool (attrs (node_def op')) ''transpose_b'') (\<lambda>transpose_b.
     RETURN_IF_ERROR (GetInputNodes (ng_op_map s) op' 3) (\<lambda>ins.
       let ng_lhs = ins ! 0; ng_rhs = ins ! 1; ng_bias = ins ! 2
       in RETURN_IF_ERROR
            (ConstructNgNode (x_infer x) ''MatMul'' (name (node_def op')) [ng_lhs, ng_rhs]
               [ArgBool transpose_a, ArgBool transpose_b] (ng_heap s))
            (\<lambda>(ng_matmul, h1).
     RETURN_IF_ERROR (get_shape h1 ng_matmul) (\<lambda>ng_matmul_shape.
     RETURN_IF_ERROR (get_shape h1 ng_bias) (\<lambda>ng_bias_shape.
       if length ng_bias_shape \<noteq> 1 then
         Inl (Err INVALID_ARGUMENT ''Bias argument to BiasAdd does not have one dimension'')
       else
         RETURN_IF_ERROR
           (ConstructNgNode (x_infer x) ''Add'' (name (node_def op')) [ng_matmul, ng_bias] [] h1)
           (\<lambda>(ng_add, h2).
              if length fused_ops = 1 then Inr (save op' s (ng_add, h2))
              else if length fused_ops = 2 then
                (if fused_ops ! 1 = ''Relu'' then
                   RETURN_IF_ERROR
                     (ConstructNgNode (x_infer x) ''Relu'' (name (node_def op')) [ng_add] [] h2)
                     (\<lambda>r. Inr (save op' s r))
                 else if fused_ops ! 1 = ''Relu6'' then
                   RETURN_IF_ERROR
                     (ConstructNgNode (x_infer x) ''Clamp'' (name (node_def op')) [ng_add]
                        [ArgInts [0, 6]] h2)
                     (\<lambda>r. Inr (save op' s r))
                 else
                   Inl (Err INTERNAL
                     (''Expected activation to be Relu or Relu6 but got '' @ fused_ops ! 1)))
              else Inl (Err INTERNAL ''Unsupported combination''))))))))))"

text \<open>
  The lambda \<^verbatim>\<open>CreateNgConv\<close> of \<^verbatim>\<open>TranslateFusedConv2DOp\<close>. It updates its arguments
  \<^verbatim>\<open>ng_input\<close> and \<^verbatim>\<open>ng_filter\<close> in place; the handler reads neither afterwards, so only
  \<^verbatim>\<open>ng_conv\<close> is returned.
\<close>

definition CreateNgConv ::
  "ext \<Rightarrow> Node \<Rightarrow> string \<Rightarrow> bool \<Rightarrow> ng_output \<Rightarrow> ng_output \<Rightarrow> heap
     \<Rightarrow> fail + (ng_output \<times> heap)" where
  "CreateNgConv x op' tf_data_format is_nhwc ng_input ng_filter h =
     RETURN_IF_ERROR (GetNodeAttr_ints (attrs (node_def op')) ''strides'') (\<lambda>tf_strides.
     RETURN_IF_ERROR (GetNodeAttr_ints (attrs (node_def op')) ''dilations'') (\<lambda>tf_dilations.
     RETURN_IF_ERROR (GetNodeAttr_string (attrs (node_def op')) ''padding'') (\<lambda>tf_padding_type.
       if tf_data_format \<noteq> ''NHWC'' \<and> tf_data_format \<noteq> ''NCHW'' then
         Inl (Err INVALID_ARGUMENT ''Conv2D data format is neither NHWC nor NCHW'')
       else if length tf_strides \<le> (if is_nhwc then 3 else 1) then Inl Aborted
       else if tf_strides ! 0 \<noteq> 1 \<or> tf_strides ! (if is_nhwc then 3 else 1) \<noteq> 1 then
         Inl (Err INVALID_ARGUMENT
           (''Strides in batch and depth dimensions is not supported: ''
             @ type_string (node_def op')))
       else
         (let ng_strides = x_NHWCtoHW x is_nhwc tf_strides
          in RETURN_IF_ERROR (get_shape h ng_input) (\<lambda>ng_input_shape.
             let ng_image_shape = x_NHWCtoHW x is_nhwc (map int ng_input_shape);
                 ng_dilations = x_NHWCtoHW x is_nhwc tf_dilations
             in RETURN_IF_ERROR (x_NHWCtoNCHW x (name (node_def op')) is_nhwc ng_input h)
                  (\<lambda>(ng_input', h1).
             RETURN_IF_ERROR (get_shape h1 ng_filter) (\<lambda>ng_filter_shape.
               if length ng_filter_shape \<le> 1 then Inl Aborted
               else
                 (let ng_kernel_shape = [ng_filter_shape ! 0, ng_filter_shape ! 1]
                  in RETURN_IF_ERROR (x_Transpose x [3, 2, 0, 1] ng_filter h1)
                       (\<lambda>(ng_filter', h2).
                          let h3 = SetTracingInfo (name (node_def op')) ng_filter' h2;
                              padding = x_MakePadding x tf_padding_type ng_image_shape
                                          ng_kernel_shape ng_strides ng_dilations
                          in ConstructNgNode (x_infer x) ''Convolution''
                               (name (node_def op') @ ''_FusedConv2D_Conv'')
                               [ng_input', ng_filter']
                               [ArgShape ng_strides, ArgInts (fst padding),
                                ArgInts (snd padding), ArgShape ng_dilations] h3)))))))))"

text \<open>
  The bias of a fused convolution: \<^verbatim>\<open>reshape_pattern\<close> is built with
  \<^verbatim>\<open>make_shared\<close>, the reshape and the addition with \<^verbatim>\<open>ConstructNgNode\<close>. \<open>tag\<close> is the
  suffix of the addition's provenance tag.
\<close>

definition fused_bias_add ::
  "ext \<Rightarrow> Node \<Rightarrow> string \<Rightarrow> ng_output \<Rightarrow> ng_output \<Rightarrow> heap \<Rightarrow> fail + (ng_output \<times> heap)" where
  "fused_bias_add x op' tag ng_conv ng_bias h =
     RETURN_IF_ERROR (get_shape h ng_conv) (\<lambda>ng_conv_shape.
     RETURN_IF_ERROR (get_shape h ng_bias) (\<lambda>ng_bias_shape.
       if length ng_bias_shape \<noteq> 1 then
         Inl (Err INVALID_ARGUMENT ''Bias argument to BiasAdd does not have one dimension'')
       else if length ng_conv_shape \<le> 1 then Inl Aborted
       else
         (let reshape_pattern_values =
                (replicate (length ng_conv_shape) 1)[1 := int (hd ng_bias_shape)]
          in RETURN_IF_ERROR
               (make_shared (x_infer x) ''Constant'' []
                  [ArgEt et_u64, ArgShape [length reshape_pattern_values],
                   ArgInts reshape_pattern_values] h)
               (\<lambda>(reshape_pattern, h1).
            RETURN_IF_ERROR
               (ConstructNgNode (x_infer x) ''Reshape'' (name (node_def op'))
                  [ng_bias, (reshape_pattern, 0)] [ArgBool False] h1)
               (\<lambda>(ng_bias_reshaped, h2).
                  ConstructNgNode (x_infer x) ''Add'' (name (node_def op') @ tag)
                    [ng_conv, ng_bias_reshaped] [] h2)))))"

text \<open>A node, the layout conversion back, and the save: the end of most branches.\<close>

definition finish_nhwc :: "ext \<Rightarrow> Node \<Rightarrow> bool \<Rightarrow> state \<Rightarrow> ng_output \<times> heap \<Rightarrow> fail + state" where
  "finish_nhwc x op' is_nhwc s r =
     RETURN_IF_ERROR (x_NCHWtoNHWC x (name (node_def op')) is_nhwc (fst r) (snd r))
       (\<lambda>r'. Inr (save op' s r'))"

definition leaky_relu ::
  "ext \<Rightarrow> Node \<Rightarrow> string \<Rightarrow> ng_output \<Rightarrow> heap \<Rightarrow> fail + (ng_output \<times> heap)" where
  "leaky_relu x op' tag ng_in h =
     RETURN_IF_ERROR (GetNodeAttr_float (attrs (node_def op')) ''leakyrelu_alpha'')
       (\<lambda>tf_leakyrelu_alpha.
     RETURN_IF_ERROR
       (ConstructNgNode (x_infer x) ''Constant'' (name (node_def op')) []
          [ArgEt et_f32, ArgShape [], ArgInts [tf_leakyrelu_alpha]] h)
       (\<lambda>(ng_leakyrelu_alpha, h1).
     RETURN_IF_ERROR
       (ConstructNgNode (x_infer x) ''Multiply'' (name (node_def op'))
          [ng_leakyrelu_alpha, ng_in] [] h1)
       (\<lambda>(ng_alphax, h2).
          ConstructNgNode (x_infer x) ''Maximum'' (name (node_def op') @ tag)
            [ng_alphax, ng_in] [] h2)))"

text \<open>The first branch of \<^verbatim>\<open>TranslateFusedConv2DOp\<close>: the sequences that start with a bias.\<close>

definition FusedConv2D_BiasAdd ::
  "ext \<Rightarrow> Node \<Rightarrow> state \<Rightarrow> int \<Rightarrow> string list \<Rightarrow> string \<Rightarrow> bool \<Rightarrow> fail + state" where
  "FusedConv2D_BiasAdd x op' s num_args fused_ops tf_data_format is_nhwc =
     RETURN_IF_ERROR
       (if VecStrCmp fused_ops [''BiasAdd'', ''Add'', ''Relu'']
           \<or> VecStrCmp fused_ops [''BiasAdd'', ''Add'']
           \<or> VecStrCmp fused_ops [''BiasAdd'', ''Add'', ''LeakyRelu''] then
          (if num_args \<noteq> 2 then
             Inl (Err INVALID_ARGUMENT ''FusedConv2DBiasAdd has incompatible num_args'')
           else GetInputNodes (ng_op_map s) op' 4)
        else
          (if num_args \<noteq> 1 then
             Inl (Err INVALID_ARGUMENT ''FusedConv2DBiasAdd has incompatible num_args'')
           else GetInputNodes (ng_op_map s) op' 3))
       (\<lambda>ins.
     let ng_input = ins ! 0; ng_filter = ins ! 1; ng_bias = ins ! 2; ng_input2 = ins ! 3;
         nm = name (node_def op')
     in RETURN_IF_ERROR (CreateNgConv x op' tf_data_format is_nhwc ng_input ng_filter (ng_heap s))
          (\<lambda>(ng_conv, h).
     RETURN_IF_ERROR (fused_bias_add x op' ''_FusedConv2D_BiasAdd'' ng_conv ng_bias h)
          (\<lambda>(ng_add, h).
       if VecStrCmp fused_ops [''BiasAdd'', ''Relu''] then
         RETURN_IF_ERROR
           (ConstructNgNode (x_infer x) ''Relu'' (nm @ ''_FusedConv2D_Relu'') [ng_add] [] h)
           (finish_nhwc x op' is_nhwc s)
       else if VecStrCmp fused_ops [''BiasAdd'', ''Relu6''] then
         RETURN_IF_ERROR
           (ConstructNgNode (x_infer x) ''Clamp'' (nm @ ''_FusedConv2D_Relu6'') [ng_add]
              [ArgInts [0, 6]] h)
           (finish_nhwc x op' is_nhwc s)
       else if VecStrCmp fused_ops [''BiasAdd'', ''LeakyRelu''] then
         RETURN_IF_ERROR (leaky_relu x op' ''_FusedConv2D_LeakyRelu'' ng_add h)
           (finish_nhwc x op' is_nhwc s)
       else if VecStrCmp fused_ops [''BiasAdd'', ''Elu''] then
         RETURN_IF_ERROR (GetNodeAttr_float (attrs (node_def op')) ''leakyrelu_alpha'')
           (\<lambda>tf_elu_alpha.
         RETURN_IF_ERROR
           (ConstructNgNode (x_infer x) ''Elu'' (nm @ ''_FusedConv2D_Elu'') [ng_add]
              [ArgInts [tf_elu_alpha]] h)
           (finish_nhwc x op' is_nhwc s))
       else if VecStrCmp fused_ops [''BiasAdd'', ''Add'', ''Relu''] then
         RETURN_IF_ERROR (x_NHWCtoNCHW x nm is_nhwc ng_input2 h) (\<lambda>(ng_input2', h).
         RETURN_IF_ERROR
           (ConstructNgNode (x_infer x) ''Add'' (nm @ ''_FusedConv2D_Add'')
              [ng_add, ng_input2'] [] h)
           (\<lambda>(ng_add2, h).
         RETURN_IF_ERROR
           (ConstructNgNode (x_infer x) ''Relu'' (nm @ ''_FusedConv2D_Relu'') [ng_add2] [] h)
           (finish_nhwc x op' is_nhwc s)))
       else if VecStrCmp fused_ops [''BiasAdd'', ''Add''] then
         RETURN_IF_ERROR (x_NCHWtoNHWC x nm is_nhwc ng_add h) (\<lambda>(ng_add', h).
         RETURN_IF_ERROR
           (ConstructNgNode (x_infer x) ''Add'' (nm @ ''_FusedConv2D_BiasAdd_Add'')
              [ng_add', ng_input2] [] h)
           (\<lambda>ng_out. Inr (save op' s ng_out)))
       else if VecStrCmp fused_ops [''BiasAdd'', ''Add'', ''LeakyRelu''] then
         RETURN_IF_ERROR (x_NHWCtoNCHW x nm is_nhwc ng_input2 h) (\<lambda>(ng_input2', h).
         RETURN_IF_ERROR
           (ConstructNgNode (x_infer x) ''Add'' (nm @ ''_FusedConv2D_Add'')
              [ng_add, ng_input2'] [] h)
           (\<lambda>(ng_add2, h).
         RETURN_IF_ERROR (leaky_relu x op' ''_FusedConv2D_Add_LeakyRelu'' ng_add2 h)
           (finish_nhwc x op' is_nhwc s)))
       else finish_nhwc x op' is_nhwc s (ng_add, h))))"

text \<open>The second branch: the sequences that start with a batch normalization.\<close>

definition FusedConv2D_BatchNorm ::
  "ext \<Rightarrow> Node \<Rightarrow> state \<Rightarrow> int \<Rightarrow> string list \<Rightarrow> string \<Rightarrow> bool \<Rightarrow> fail + state" where
  "FusedConv2D_BatchNorm x op' s num_args fused_ops tf_data_format is_nhwc =
     (if num_args \<noteq> 4 then
        Inl (Err INVALID_ARGUMENT ''FusedConv2D with FusedBatchNorm has incompatible num_args'')
      else
        RETURN_IF_ERROR (GetInputNodes (ng_op_map s) op' 6) (\<lambda>ins.
        let ng_input = ins ! 0; ng_filter = ins ! 1; ng_scale = ins ! 2; ng_offset = ins ! 3;
            ng_mean = ins ! 4; ng_variance = ins ! 5; nm = name (node_def op')
        in RETURN_IF_ERROR
             (CreateNgConv x op' tf_data_format is_nhwc ng_input ng_filter (ng_heap s))
             (\<lambda>(ng_conv, h).
        RETURN_IF_ERROR (GetNodeAttr_float (attrs (node_def op')) ''epsilon'') (\<lambda>tf_epsilon.
        RETURN_IF_ERROR
          (ConstructNgNode (x_infer x) ''BatchNormInference'' (nm @ ''_FusedConv2D_BatchNorm'')
             [ng_conv, ng_scale, ng_offset, ng_mean, ng_variance] [ArgInts [tf_epsilon]] h)
          (\<lambda>(ng_batch_norm, h).
          if VecStrCmp fused_ops [''FusedBatchNorm'', ''Relu''] then
            RETURN_IF_ERROR
              (ConstructNgNode (x_infer x) ''Relu'' (nm @ ''_FusedConv2D_BatchNormRelu'')
                 [ng_batch_norm] [] h)
              (finish_nhwc x op' is_nhwc s)
          else if VecStrCmp fused_ops [''FusedBatchNorm'', ''Relu6''] then
            RETURN_IF_ERROR
              (ConstructNgNode (x_infer x) ''Clamp'' (nm @ ''_FusedConv2D_BatchNormRelu'')
                 [ng_batch_norm] [ArgInts [0, 6]] h)
              (finish_nhwc x op' is_nhwc s)
          else if VecStrCmp fused_ops [''FusedBatchNorm'', ''LeakyRelu''] then
            RETURN_IF_ERROR (leaky_relu x op' ''_FusedConv2D_BatchNormLeakyRelu'' ng_batch_norm h)
              (finish_nhwc x op' is_nhwc s)
          else finish_nhwc x op' is_nhwc s (ng_batch_norm, h))))))"

definition TranslateFusedConv2DOp :: "ext \<Rightarrow> handler" where
  "TranslateFusedConv2DOp x op' static_input_map s =
     RETURN_IF_ERROR (GetNodeAttr_int (attrs (node_def op')) ''num_args'') (\<lambda>num_args.
     RETURN_IF_ERROR (GetNodeAttr_strings (attrs (node_def op')) ''fused_ops'') (\<lambda>fused_ops.
     RETURN_IF_ERROR (GetNodeAttr_string (attrs (node_def op')) ''data_format'')
       (\<lambda>tf_data_format.
       let is_nhwc = (tf_data_format = ''NHWC'')
       in if VecStrCmp fused_ops [''BiasAdd'']
             \<or> VecStrCmp fused_ops [''BiasAdd'', ''Relu'']
             \<or> VecStrCmp fused_ops [''BiasAdd'', ''Relu6'']
             \<or> VecStrCmp fused_ops [''BiasAdd'', ''LeakyRelu'']
             \<or> VecStrCmp fused_ops [''BiasAdd'', ''Elu'']
             \<or> VecStrCmp fused_ops [''BiasAdd'', ''Add'', ''Relu'']
             \<or> VecStrCmp fused_ops [''BiasAdd'', ''Add'']
             \<or> VecStrCmp fused_ops [''BiasAdd'', ''Add'', ''LeakyRelu''] then
            FusedConv2D_BiasAdd x op' s num_args fused_ops tf_data_format is_nhwc
          else if VecStrCmp fused_ops [''FusedBatchNorm'']
             \<or> VecStrCmp fused_ops [''FusedBatchNorm'', ''Relu'']
             \<or> VecStrCmp fused_ops [''FusedBatchNorm'', ''Relu6'']
             \<or> VecStrCmp fused_ops [''FusedBatchNorm'', ''LeakyRelu''] then
            FusedConv2D_BatchNorm x op' s num_args fused_ops tf_data_format is_nhwc
          else
            Inl (Err UNIMPLEMENTED (''Unsupported _FusedConv2D '' @ StrJoin fused_ops '','')))))"

text \<open>The lambda \<^verbatim>\<open>CreateNgDepthwiseConv\<close> of \<^verbatim>\<open>TranslateFusedDepthwiseConv2dNativeOp\<close>.\<close>

definition CreateNgDepthwiseConv ::
  "ext \<Rightarrow> Node \<Rightarrow> ng_output \<Rightarrow> ng_output \<Rightarrow> heap \<Rightarrow> fail + (ng_output \<times> heap)" where
  "CreateNgDepthwiseConv x op' ng_input ng_filter h =
     RETURN_IF_ERROR (GetNodeAttr_ints (attrs (node_def op')) ''strides'') (\<lambda>tf_strides.
     RETURN_IF_ERROR (GetNodeAttr_ints (attrs (node_def op')) ''dilations'') (\<lambda>tf_dilations.
     RETURN_IF_ERROR (GetNodeAttr_string (attrs (node_def op')) ''padding'') (\<lambda>tf_padding_type.
     RETURN_IF_ERROR (GetNodeAttr_string (attrs (node_def op')) ''data_format'')
       (\<lambda>tf_data_format.
       if tf_data_format \<noteq> ''NHWC'' \<and> tf_data_format \<noteq> ''NCHW'' then
         Inl (Err INVALID_ARGUMENT ''DepthwiseConv2D data format is neither NHWC nor NCHW'')
       else
         (let is_nhwc = (tf_data_format = ''NHWC''); nm = name (node_def op')
          in RETURN_IF_ERROR (get_shape h ng_input) (\<lambda>ng_input_shape.
             let ng_image_shape = x_NHWCtoHW x is_nhwc (map int ng_input_shape);
                 ng_strides = x_NHWCtoHW x is_nhwc tf_strides;
                 ng_dilations = x_NHWCtoHW x is_nhwc tf_dilations
             in RETURN_IF_ERROR (x_NHWCtoNCHW x nm is_nhwc ng_input h) (\<lambda>(ng_input', h).
             RETURN_IF_ERROR (get_shape h ng_filter) (\<lambda>ng_filter_shape.
               if length ng_filter_shape \<le> 3 then Inl Aborted
               else
                 (let ng_kernel_shape = [ng_filter_shape ! 0, ng_filter_shape ! 1];
                      padding = x_MakePadding x tf_padding_type ng_image_shape
                                  ng_kernel_shape ng_strides ng_dilations
                  in RETURN_IF_ERROR
                       (ConstructNgNode (x_infer x) ''Constant'' nm []
                          [ArgEt et_u64, ArgShape [5],
                           ArgInts [int (ng_filter_shape ! 0), int (ng_filter_shape ! 1),
                                    int (ng_filter_shape ! 2), 1, int (ng_filter_shape ! 3)]] h)
                       (\<lambda>(filter_shape, h).
                     RETURN_IF_ERROR
                       (ConstructNgNode (x_infer x) ''Reshape'' nm [ng_filter, filter_shape]
                          [ArgBool False] h)
                       (\<lambda>(reshaped_filter, h).
                     RETURN_IF_ERROR
                       (ConstructNgNode (x_infer x) ''Constant'' nm []
                          [ArgEt et_i64, ArgShape [5], ArgInts [2, 4, 3, 0, 1]] h)
                       (\<lambda>(order, h).
                     RETURN_IF_ERROR
                       (ConstructNgNode (x_infer x) ''Transpose'' nm [reshaped_filter, order] [] h)
                       (\<lambda>(transposed_filter, h).
                          ConstructNgNode (x_infer x) ''GroupConvolution'' nm
                            [ng_input', transposed_filter]
                            [ArgShape ng_strides, ArgInts (fst padding), ArgInts (snd padding),
                             ArgShape ng_dilations] h)))))))))))))"

definition TranslateFusedDepthwiseConv2dNativeOp :: "ext \<Rightarrow> handler" where
  "TranslateFusedDepthwiseConv2dNativeOp x op' static_input_map s =
     RETURN_IF_ERROR (GetNodeAttr_int (attrs (node_def op')) ''num_args'') (\<lambda>num_args.
     RETURN_IF_ERROR (GetNodeAttr_strings (attrs (node_def op')) ''fused_ops'') (\<lambda>fused_ops.
     RETURN_IF_ERROR (GetNodeAttr_string (attrs (node_def op')) ''data_format'')
       (\<lambda>tf_data_format.
       let is_nhwc = (tf_data_format = ''NHWC''); nm = name (node_def op')
       in if VecStrCmp fused_ops [''BiasAdd''] \<or> VecStrCmp fused_ops [''BiasAdd'', ''Relu6'']
          then
            (if num_args \<noteq> 1 then
               Inl (Err INVALID_ARGUMENT
                 ''FusedDepthwiseConv2dNativeBiasAdd has incompatible num_args'')
             else
               RETURN_IF_ERROR (GetInputNodes (ng_op_map s) op' 3) (\<lambda>ins.
               let ng_input = ins ! 0; ng_filter = ins ! 1; ng_bias = ins ! 2
               in RETURN_IF_ERROR (CreateNgDepthwiseConv x op' ng_input ng_filter (ng_heap s))
                    (\<lambda>(ng_conv, h).
                  RETURN_IF_ERROR
                    (fused_bias_add x op' ''_FusedDepthwiseConv2dNative_BiasAdd'' ng_conv ng_bias h)
                    (\<lambda>(ng_add, h).
                       if VecStrCmp fused_ops [''BiasAdd'', ''Relu6''] then
                         RETURN_IF_ERROR
                           (ConstructNgNode (x_infer x) ''Clamp''
                              (nm @ ''_FusedDepthwiseConv2dNative_Relu6'') [ng_add]
                              [ArgInts [0, 6]] h)
                           (finish_nhwc x op' is_nhwc s)
                       else finish_nhwc x op' is_nhwc s (ng_add, h)))))
          else
            Inl (Err UNIMPLEMENTED
              (''Unsupported _FusedDepthwiseConv2dNative '' @ StrJoin fused_ops '','')))))"

section \<open>Operator registry\<close>

text \<open>
  \<^verbatim>\<open>TRANSLATE_OP_MAP\<close>, entry by entry. A handler whose body is embedded above is named by a
  constructor; any other handler is \<open>Handler f\<close>, \<open>f\<close> being the C++ function registered, and
  runs \<open>x_other_handler x f\<close>.
\<close>

datatype translator =
    UnaryOp string
  | BinaryOp string
  | IdentityOp
  | NoOp
  | ConstOp
  | BiasAddOp
  | FusedConv2DOp
  | FusedDepthwiseConv2dNativeOp
  | FusedMatMulOp
  | Handler string

definition TRANSLATE_OP_MAP :: "(string \<times> translator) list" where
  "TRANSLATE_OP_MAP =
     [(''Abs'', UnaryOp ''Abs''), (''Acos'', UnaryOp ''Acos''), (''Acosh'', UnaryOp ''Acosh''),
      (''Add'', BinaryOp ''Add''), (''AddN'', Handler ''TranslateAddNOp''),
      (''AddV2'', BinaryOp ''Add''),
      (''Any'', Handler ''TranslateDirectReduceOp<ReduceLogicalOr>''),
      (''All'', Handler ''TranslateDirectReduceOp<ReduceLogicalAnd>''),
      (''ArgMax'', Handler ''TranslateArgMaxOp''), (''ArgMin'', Handler ''TranslateArgMinOp''),
      (''Asin'', UnaryOp ''Asin''), (''Asinh'', UnaryOp ''Asinh''),
      (''Atan'', UnaryOp ''Atan''), (''Atanh'', UnaryOp ''Atanh''),
      (''AvgPool'', Handler ''TranslateAvgPoolOp<2>''),
      (''AvgPool3D'', Handler ''TranslateAvgPoolOp<3>''),
      (''BatchToSpaceND'', Handler ''TranslateBatchNDAndSpaceNDOp''), (''BiasAdd'', BiasAddOp),
      (''Cast'', Handler ''TranslateCastOp''), (''Ceil'', UnaryOp ''Ceiling''),
      (''ConcatV2'', Handler ''TranslateConcatV2Op''), (''Const'', ConstOp),
      (''Conv2D'', Handler ''TranslateConv2DOp''),
      (''Conv2DBackpropInput'', Handler ''TranslateConv2DBackpropInputOp''),
      (''Conv3D'', Handler ''TranslateConv3DOp''),
      (''Conv3DBackpropInputV2'', Handler ''TranslateConv3DBackpropInputV2Op''),
      (''Cos'', UnaryOp ''Cos''), (''Cosh'', UnaryOp ''Cosh''),
      (''CropAndResize'', Handler ''TranslateCropAndResizeOp''),
      (''Cumsum'', Handler ''TranslateCumsumOp''),
      (''DepthToSpace'', Handler ''TranslateDepthToSpaceOp''),
      (''DepthwiseConv2dNative'', Handler ''TranslateDepthwiseConv2dNativeOp''),
      (''Elu'', Handler ''TranslateEluOp''), (''Equal'', BinaryOp ''Equal''),
      (''Exp'', UnaryOp ''Exp''), (''ExpandDims'', Handler ''TranslateExpandDimsOp''),
      (''FakeQuantWithMinMaxVars'', Handler ''TranslateFakeQuantWithMinMaxVarsOp''),
      (''Fill'', Handler ''TranslateFillOp''), (''Floor'', UnaryOp ''Floor''),
      (''FloorDiv'', Handler ''TranslateFloorDivOp''), (''FloorMod'', BinaryOp ''FloorMod''),
      (''FusedBatchNorm'', Handler ''TranslateFusedBatchNormOp''),
      (''FusedBatchNormV2'', Handler ''TranslateFusedBatchNormOp''),
      (''FusedBatchNormV3'', Handler ''TranslateFusedBatchNormOp''),
      (''Gather'', Handler ''TranslateGatherOp''),
      (''GatherV2'', Handler ''TranslateGatherV2Op''),
      (''GatherNd'', Handler ''TranslateGatherNdOp''),
      (''_FusedBatchNormEx'', Handler ''TranslateFusedBatchNormOp''),
      (''_FusedConv2D'', FusedConv2DOp),
      (''_FusedDepthwiseConv2dNative'', FusedDepthwiseConv2dNativeOp),
      (''_FusedMatMul'', FusedMatMulOp), (''Greater'', BinaryOp ''Greater''),
      (''GreaterEqual'', BinaryOp ''GreaterEqual''), (''Identity'', IdentityOp),
      (''IsFinite'', Handler ''TranslateIsFiniteOp''),
      (''L2Loss'', Handler ''TranslateL2LossOp''),
      (''LogSoftmax'', Handler ''TranslateLogSoftmaxOp''),
      (''LeakyRelu'', Handler ''TranslateLeakyReluOp''), (''Less'', BinaryOp ''Less''),
      (''LessEqual'', BinaryOp ''LessEqual''), (''Log'', UnaryOp ''Log''),
      (''Log1p'', Handler ''TranslateLog1pOp''), (''LogicalAnd'', BinaryOp ''LogicalAnd''),
      (''LogicalNot'', UnaryOp ''LogicalNot''), (''LogicalOr'', BinaryOp ''LogicalOr''),
      (''LRN'', Handler ''TranslateLRNOp''), (''MatMul'', Handler ''TranslateMatMulOp''),
      (''Max'', Handler ''TranslateDirectReduceOp<ReduceMax>''),
      (''Maximum'', BinaryOp ''Maximum''), (''MaxPool'', Handler ''TranslateMaxPoolOp<2>''),
      (''MaxPool3D'', Handler ''TranslateMaxPoolOp<3>''),
      (''NonMaxSuppressionV2'', Handler ''TranslateNonMaxSuppressionV2Op''),
      (''NonMaxSuppressionV3'', Handler ''TranslateNonMaxSuppressionV3Op''),
      (''Mean'', Handler ''TranslateDirectReduceOp<ReduceMean>''),
      (''Min'', Handler ''TranslateDirectReduceOp<ReduceMin>''),
      (''Minimum'', BinaryOp ''Minimum''), (''MirrorPad'', Handler ''TranslatePadOp''),
      (''Mul'', BinaryOp ''Multiply''), (''Mod'', BinaryOp ''Mod''),
      (''Neg'', UnaryOp ''Negative''), (''NotEqual'', BinaryOp ''NotEqual''), (''NoOp'', NoOp),
      (''OneHot'', Handler ''TranslateOneHotOp''), (''Pack'', Handler ''TranslatePackOp''),
      (''Pad'', Handler ''TranslatePadOp''), (''PadV2'', Handler ''TranslatePadOp''),
      (''Pow'', BinaryOp ''Power''), (''PreventGradient'', IdentityOp),
      (''Prod'', Handler ''TranslateDirectReduceOp<ReduceProd>''),
      (''Range'', Handler ''TranslateRangeOp''), (''Rank'', Handler ''TranslateRankOp''),
      (''RealDiv'', BinaryOp ''Divide''), (''Reciprocal'', Handler ''TranslateReciprocalOp''),
      (''Relu'', UnaryOp ''Relu''), (''Relu6'', Handler ''TranslateRelu6Op''),
      (''Reshape'', Handler ''TranslateReshapeOp''), (''Round'', Handler ''TranslateRoundOp''),
      (''ResizeBilinear'', Handler ''TranslateResizeBilinearOp''),
      (''ResizeNearestNeighbor'', Handler ''TranslateResizeNearestNeighborOp''),
      (''Reverse'', Handler ''TranslateReverseOp''),
      (''ReverseV2'', Handler ''TranslateReverseOp''),
      (''Rsqrt'', Handler ''TranslateRsqrtOp''),
      (''ScatterNd'', Handler ''TranslateScatterNdOp''),
      (''Select'', Handler ''TranslateSelectOp''),
      (''SelectV2'', Handler ''TranslateSelectOp''), (''Shape'', Handler ''TranslateShapeOp''),
      (''Sigmoid'', UnaryOp ''Sigmoid''), (''Sin'', UnaryOp ''Sin''),
      (''Sinh'', UnaryOp ''Sinh''), (''Size'', Handler ''TranslateSizeOp''),
      (''Sign'', UnaryOp ''Sign''), (''Slice'', Handler ''TranslateSliceOp''),
      (''Snapshot'', IdentityOp), (''Softmax'', Handler ''TranslateSoftmaxOp''),
      (''Softplus'', Handler ''TranslateSoftPlusOp''),
      (''SpaceToBatchND'', Handler ''TranslateBatchNDAndSpaceNDOp''),
      (''SpaceToDepth'', Handler ''TranslateSpaceToDepthOp''),
      (''Split'', Handler ''TranslateSplitOp''), (''SplitV'', Handler ''TranslateSplitVOp''),
      (''Sqrt'', UnaryOp ''Sqrt''), (''Square'', Handler ''TranslateSquareOp''),
      (''SquaredDifference'', BinaryOp ''SquaredDifference''),
      (''Squeeze'', Handler ''TranslateSqueezeOp''),
      (''StridedSlice'', Handler ''TranslateStridedSliceOp''),
      (''Sub'', BinaryOp ''Subtract''),
      (''Sum'', Handler ''TranslateDirectReduceOp<ReduceSum>''), (''Tan'', UnaryOp ''Tan''),
      (''Tanh'', UnaryOp ''Tanh''), (''Tile'', Handler ''TranslateTileOp''),
      (''TopKV2'', Handler ''TranslateTopKV2Op''),
      (''Transpose'', Handler ''TranslateTransposeOp''),
      (''Unpack'', Handler ''TranslateUnpackOp''), (''Where'', Handler ''TranslateWhereOp''),
      (''Xdivy'', Handler ''TranslateXdivyOp''),
      (''ZerosLike'', Handler ''TranslateZerosLikeOp'')]"

fun translate :: "ext \<Rightarrow> translator \<Rightarrow> handler" where
  "translate x (UnaryOp T) = TranslateUnaryOp_T x T"
| "translate x (BinaryOp T) = TranslateBinaryOp_T x T"
| "translate x IdentityOp = TranslateIdentityOp"
| "translate x NoOp = TranslateNoOp"
| "translate x ConstOp = TranslateConstOp x"
| "translate x BiasAddOp = TranslateBiasAddOp x"
| "translate x FusedConv2DOp = TranslateFusedConv2DOp x"
| "translate x FusedDepthwiseConv2dNativeOp = TranslateFusedDepthwiseConv2dNativeOp x"
| "translate x FusedMatMulOp = TranslateFusedMatMulOp x"
| "translate x (Handler f) = x_other_handler x f"

section \<open>Translation driver\<close>

text \<open>
  Modelled from the spec: \<^verbatim>\<open>GetReversePostOrder\<close> and \<^verbatim>\<open>NodeComparatorName\<close> are
  TensorFlow functions, absent from the sources. The spec has the driver "topologically sort
  all non-sentinel nodes, breaking ties deterministically by node name": of the nodes not
  yet placed whose producers are all placed, the one with the least name comes next. The
  sentinels are ordered with the rest; the driver skips them.
\<close>

definition ready :: "Node list \<Rightarrow> Node \<Rightarrow> bool" where
  "ready remaining n =
     list_all (\<lambda>e. name (src e) \<notin> set (map (\<lambda>m. name (node_def m)) remaining)) (in_edges n)"

fun least_by_name :: "Node list \<Rightarrow> Node option" where
  "least_by_name [] = None"
| "least_by_name (n # ns) =
     (case least_by_name ns of
        None \<Rightarrow> Some n
      | Some m \<Rightarrow> if name (node_def n) \<le> name (node_def m) then Some n else Some m)"

fun topo_order :: "nat \<Rightarrow> Node list \<Rightarrow> Node list" where
  "topo_order 0 remaining = []"
| "topo_order (Suc fuel) remaining =
     (case least_by_name (filter (ready remaining) remaining) of
        None \<Rightarrow> []
      | Some n \<Rightarrow> n # topo_order fuel (remove1 n remaining))"

definition GetReversePostOrder :: "Node list \<Rightarrow> Node list" where
  "GetReversePostOrder input_graph = topo_order (length input_graph) input_graph"

text \<open>The split of the ordered nodes into parameters, results and all other operators.\<close>

fun split_ops ::
  "Node list \<Rightarrow> Node list \<times> Node list \<times> Node list
     \<Rightarrow> fail + (Node list \<times> Node list \<times> Node list)" where
  "split_ops [] acc = Inr acc"
| "split_ops (n # ordered) (tf_params, tf_ret_vals, tf_ops) =
     (if IsSink n \<or> IsSource n then split_ops ordered (tf_params, tf_ret_vals, tf_ops)
      else if IsControlFlow (node_def n) then
        Inl (Err UNIMPLEMENTED
          (''Encountered a control flow op in the openvino_tensorflow: ''
            @ DebugString (node_def n)))
      else if IsArg (node_def n) then split_ops ordered (tf_params @ [n], tf_ret_vals, tf_ops)
      else if IsRetval (node_def n) then
        split_ops ordered (tf_params, tf_ret_vals @ [n], tf_ops)
      else split_ops ordered (tf_params, tf_ret_vals, tf_ops @ [n]))"

subsection \<open>Parameters\<close>

definition ng_shape_check :: "nat list \<Rightarrow> bool" where
  "ng_shape_check ng_shape = (length ng_shape > 0 \<and> list_ex (\<lambda>val. val = 0) ng_shape)"

text \<open>
  \<^verbatim>\<open>MakeConstOpForParam<T>\<close> drops the status of \<^verbatim>\<open>TensorDataToVector\<close>; on its failure
  the value vector is still empty.
\<close>

definition MakeConstOpForParam ::
  "ext \<Rightarrow> DataType \<Rightarrow> Tensor \<Rightarrow> string \<Rightarrow> element_type \<Rightarrow> nat list \<Rightarrow> heap
     \<Rightarrow> fail + (ng_output \<times> heap)" where
  "MakeConstOpForParam x T tensor prov_tag ng_et ng_shape h =
     (let const_values =
            (case TensorDataToVector (x_conv x) T tensor of Inl e \<Rightarrow> [] | Inr v \<Rightarrow> v)
      in ConstructNgNode (x_infer x) ''Constant'' prov_tag []
           [ArgEt ng_et, ArgShape ng_shape, ArgInts const_values] h)"

text \<open>
  The body of the loop over \<^verbatim>\<open>tf_params\<close>. \<^verbatim>\<open>ng_parameter_list\<close> is a vector of shared
  pointers, null until assigned.
\<close>

definition param_step ::
  "ext \<Rightarrow> nat list list \<Rightarrow> Tensor list \<Rightarrow> Node \<Rightarrow> state \<times> nat option list
     \<Rightarrow> fail + (state \<times> nat option list)" where
  "param_step x inputs tf_input_tensors parm sp =
     (let s = fst sp; ng_parameter_list = snd sp
      in case GetNodeAttr_type (attrs (node_def parm)) ''T'' of
        Inl e \<Rightarrow> Inl (Err INVALID_ARGUMENT ''No data type defined for _Arg'')
      | Inr dtype' \<Rightarrow>
      (case GetNodeAttr_int (attrs (node_def parm)) ''index'' of
        Inl e \<Rightarrow> Inl (Err INVALID_ARGUMENT ''No index defined for _Arg'')
      | Inr index \<Rightarrow>
        RETURN_IF_ERROR (x_TFDataTypeToNGraphElementType x dtype') (\<lambda>ng_et.
        if index < 0 \<or> int (length inputs) \<le> index then Inl Aborted
        else
        RETURN_IF_ERROR (TFTensorShapeToNGraphShape (inputs ! nat index)) (\<lambda>ng_shape.
        let prov_tag =
              (case GetNodeAttr_string (attrs (node_def parm)) ''_prov_tag'' of
                 Inl e \<Rightarrow> [] | Inr t \<Rightarrow> t)
        in RETURN_IF_ERROR
             (ConstructNgNode (x_infer x) ''Parameter'' prov_tag [] [ArgEt ng_et, ArgShape ng_shape]
                (ng_heap s))
             (\<lambda>(ng_param, h).
        let is_variable =
              (if x_GetEnv x ''OPENVINO_TF_CONVERT_VARIABLES_TO_CONSTANTS'' \<noteq> ''0''
                  \<and> tf_input_tensors \<noteq> []
               then (case GetNodeAttr_bool (attrs (node_def parm)) ''_is_variable'' of
                       Inl e \<Rightarrow> False | Inr b \<Rightarrow> b)
               else False)
        in RETURN_IF_ERROR
             (if ng_shape_check ng_shape then
                RETURN_IF_ERROR
                  (ConstructNgNode (x_infer x) ''Constant'' prov_tag []
                     [ArgEt ng_et, ArgShape ng_shape,
                      ArgStrings (replicate (shape_size ng_shape) ''0'')] h)
                  (\<lambda>ng_const_input. Inr (save parm s ng_const_input))
              else if is_variable then
                (if int (length tf_input_tensors) \<le> index then Inl Aborted
                 else if dtype' \<in> set [DT_FLOAT, DT_DOUBLE, DT_INT8, DT_INT16, DT_INT32, DT_INT64,
                                       DT_UINT8, DT_UINT16, DT_UINT32, DT_UINT64, DT_BOOL] then
                   RETURN_IF_ERROR
                     (MakeConstOpForParam x dtype' (tf_input_tensors ! nat index) prov_tag ng_et
                        ng_shape h)
                     (\<lambda>ng_const_input. Inr (save parm s ng_const_input))
                 else
                   Inl (Err INTERNAL
                     (''Tensor has element type '' @ DataType_Name dtype'
                       @ ''; don't know how to convert'')))
              else Inr (save parm s (ng_param, h)))
             (\<lambda>s'.
                if int (length ng_parameter_list) \<le> index then Inl Aborted
                else Inr (s', ng_parameter_list[nat index := Some (fst ng_param)])))))))"

fun populate_parameters ::
  "ext \<Rightarrow> nat list list \<Rightarrow> Tensor list \<Rightarrow> Node list \<Rightarrow> state \<times> nat option list
     \<Rightarrow> fail + (state \<times> nat option list)" where
  "populate_parameters x inputs tf_input_tensors [] sp = Inr sp"
| "populate_parameters x inputs tf_input_tensors (parm # tf_params) sp =
     RETURN_IF_ERROR (param_step x inputs tf_input_tensors parm sp)
       (populate_parameters x inputs tf_input_tensors tf_params)"

subsection \<open>Operators\<close>

text \<open>
  The body of the loop over \<^verbatim>\<open>tf_ops\<close>: the lookup in the registry, then the handler, an
  exception of which becomes an Internal error.
\<close>

definition op_step :: "ext \<Rightarrow> Tensor option list \<Rightarrow> Node \<Rightarrow> state \<Rightarrow> fail + state" where
  "op_step x static_input_map op' s =
     (case map_of TRANSLATE_OP_MAP (type_string (node_def op')) of
        None \<Rightarrow>
          Inl (Err INVALID_ARGUMENT
            (''No translation handler registered for op: '' @ name (node_def op') @ '' (''
              @ type_string (node_def op') @ '')\<newline>'' @ DebugString (node_def op')))
      | Some op_fun \<Rightarrow>
          (case translate x op_fun op' static_input_map s of
             Inl (Thrown what) \<Rightarrow>
               Inl (Err INTERNAL
                 (''Unhandled exception in op handler: '' @ name (node_def op') @ '' (''
                   @ type_string (node_def op') @ '')\<newline>'' @ DebugString (node_def op')
                   @ ''\<newline>what(): '' @ what))
           | r \<Rightarrow> r))"

fun translate_ops :: "ext \<Rightarrow> Tensor option list \<Rightarrow> Node list \<Rightarrow> state \<Rightarrow> fail + state" where
  "translate_ops x static_input_map [] s = Inr s"
| "translate_ops x static_input_map (op' # tf_ops) s =
     RETURN_IF_ERROR (op_step x static_input_map op' s) (translate_ops x static_input_map tf_ops)"

subsection \<open>Results\<close>

definition result_step ::
  "ext \<Rightarrow> Node \<Rightarrow> state \<times> nat option list \<Rightarrow> fail + (state \<times> nat option list)" where
  "result_step x n sr =
     (let s = fst sr; ng_result_list = snd sr
      in if num_inputs n \<noteq> 1 then
           Inl (Err INVALID_ARGUMENT ''_Retval has a number of inputs other than 1'')
         else
           (case GetNodeAttr_int (attrs (node_def n)) ''index'' of
              Inl e \<Rightarrow> Inl (Err INVALID_ARGUMENT ''No index defined for _Retval'')
            | Inr index \<Rightarrow>
                RETURN_IF_ERROR (GetInputNode (ng_op_map s) n 0) (\<lambda>result.
                RETURN_IF_ERROR
                  (ConstructNgNode (x_infer x) ''Result'' (name (node_def n)) [result] []
                     (ng_heap s))
                  (\<lambda>(ng_result, h).
                     if index < 0 \<or> int (length ng_result_list) \<le> index then Inl Aborted
                     else Inr (s\<lparr>ng_heap := h\<rparr>,
                               ng_result_list[nat index := Some (fst ng_result)])))))"

fun populate_results ::
  "ext \<Rightarrow> Node list \<Rightarrow> state \<times> nat option list \<Rightarrow> fail + (state \<times> nat option list)" where
  "populate_results x [] sr = Inr sr"
| "populate_results x (n # tf_ret_vals) sr =
     RETURN_IF_ERROR (result_step x n sr) (populate_results x tf_ret_vals)"

text \<open>\<^verbatim>\<open>std::vector::resize\<close> on the caller's result list.\<close>

definition resize :: "nat \<Rightarrow> 'a option list \<Rightarrow> 'a option list" where
  "resize n xs = take n xs @ replicate (n - length xs) None"

subsection \<open>The formal parameter and result lists\<close>

text \<open>
  \<^verbatim>\<open>Node::get_shape()\<close> is the shape of the node's output 0; \<^verbatim>\<open>Node::is_dynamic()\<close> holds
  when the partial shape of some input of the node is not static.
\<close>

definition is_dynamic :: "heap \<Rightarrow> nat \<Rightarrow> bool" where
  "is_dynamic h a = list_ex (\<lambda>i. \<not> is_static (get_partial_shape h i)) (ng_inputs (h ! a))"

definition dim_check :: "nat list \<Rightarrow> bool" where
  "dim_check shape_list = list_ex (\<lambda>dim. dim = 0) shape_list"

fun filter_parameters :: "heap \<Rightarrow> nat option list \<Rightarrow> fail + nat list" where
  "filter_parameters h [] = Inr []"
| "filter_parameters h (None # ng_parameter_list) = Inl Aborted"
| "filter_parameters h (Some p # ng_parameter_list) =
     RETURN_IF_ERROR (get_shape h (p, 0)) (\<lambda>shape.
     RETURN_IF_ERROR (filter_parameters h ng_parameter_list) (\<lambda>ng_func_parameter_list.
       Inr (if \<not> (length shape > 0 \<and> dim_check shape) then p # ng_func_parameter_list
            else ng_func_parameter_list)))"

fun filter_results :: "heap \<Rightarrow> nat option list \<Rightarrow> fail + nat list" where
  "filter_results h [] = Inr []"
| "filter_results h (None # ng_result_list) = Inl Aborted"
| "filter_results h (Some r # ng_result_list) =
     RETURN_IF_ERROR
       (if is_dynamic h r then Inr True
        else RETURN_IF_ERROR (get_shape h (r, 0))
               (\<lambda>shape. Inr (\<not> (length shape > 0 \<and> dim_check shape))))
       (\<lambda>keep.
     RETURN_IF_ERROR (filter_results h ng_result_list) (\<lambda>ng_func_result_list.
       Inr (if keep then r # ng_func_result_list else ng_func_result_list)))"

subsection \<open>The function\<close>

record ng_function =
  fn_results :: "nat list"
  fn_parameters :: "nat list"
  fn_name :: string

definition set_needs_default_layout :: "heap \<Rightarrow> nat \<Rightarrow> heap" where
  "set_needs_default_layout h r = h[r := (h ! r)\<lparr>needs_default_layout := True\<rparr>]"

text \<open>
  \<^verbatim>\<open>Builder::TranslateGraph\<close>, the overload with the result list and the input tensors. On
  success it gives the function, the result list and the store of target nodes. The
  constructor of \<^verbatim>\<open>ng::Function\<close> validates the graph (\<open>x_function_check\<close>, the message of
  the exception it raises, if any); the passes registered are run on the function's nodes.
\<close>

definition TranslateGraph ::
  "ext \<Rightarrow> nat list list \<Rightarrow> Tensor option list \<Rightarrow> Node list \<Rightarrow> string \<Rightarrow> nat option list
     \<Rightarrow> Tensor list \<Rightarrow> fail + (ng_function \<times> nat option list \<times> heap)" where
  "TranslateGraph x inputs static_input_map input_graph name' ng_result_list tf_input_tensors =
     (let ordered = GetReversePostOrder input_graph
      in RETURN_IF_ERROR (split_ops ordered ([], [], [])) (\<lambda>(tf_params, tf_ret_vals, tf_ops).
         RETURN_IF_ERROR
           (populate_parameters x inputs tf_input_tensors tf_params
              (\<lparr>ng_heap = [], ng_op_map = Map.empty\<rparr>, replicate (length tf_params) None))
           (\<lambda>(s, ng_parameter_list).
         RETURN_IF_ERROR (translate_ops x static_input_map tf_ops s) (\<lambda>s.
         RETURN_IF_ERROR
           (populate_results x tf_ret_vals (s, resize (length tf_ret_vals) ng_result_list))
           (\<lambda>(s, ng_result_list).
         RETURN_IF_ERROR (filter_parameters (ng_heap s) ng_parameter_list)
           (\<lambda>ng_func_parameter_list.
         RETURN_IF_ERROR (filter_results (ng_heap s) ng_result_list) (\<lambda>ng_func_result_list.
           case x_function_check x (ng_heap s) ng_func_result_list ng_func_parameter_list of
             Some what \<Rightarrow>
               Inl (Err INTERNAL
                 (''Failed to create nGraph Function for '' @ name' @ '': '' @ what))
           | None \<Rightarrow>
               (let passes =
                      (if x_GetEnv x ''OPENVINO_TF_CONSTANT_FOLDING'' = ''1''
                       then [''ConstantFolding''] else [])
                      @ (if x_GetEnv x ''OPENVINO_TF_TRANSPOSE_SINKING'' \<noteq> ''0''
                         then [''TransposeSinking''] else []);
                    h = x_run_passes x passes (ng_heap s)
                in Inr (\<lparr>fn_results = ng_func_result_list,
                          fn_parameters = ng_func_parameter_list, fn_name = name'\<rparr>,
                        ng_result_list,
                        foldl set_needs_default_layout h ng_func_result_list)))))))))"

text \<open>
  The overload without the result list and the input tensors. It calls the overload above
  and returns \<^verbatim>\<open>Status::OK()\<close> whatever status that call returned; the function is set
  only when the inner call got as far as constructing it. \<open>Inr\<close> is \<^verbatim>\<open>Status::OK()\<close>.
\<close>

definition TranslateGraph5 ::
  "ext \<Rightarrow> nat list list \<Rightarrow> Tensor option list \<Rightarrow> Node list \<Rightarrow> string
     \<Rightarrow> fail + (ng_function \<times> heap) option" where
  "TranslateGraph5 x inputs static_input_map input_graph name' =
     (case TranslateGraph x inputs static_input_map input_graph name' [] [] of
        Inl (Err c m) \<Rightarrow> Inr None
      | Inl (Thrown what) \<Rightarrow> Inl (Thrown what)
      | Inl Aborted \<Rightarrow> Inl Aborted
      | Inr (ng_function, ng_result_list, h) \<Rightarrow> Inr (Some (ng_function, h)))"

section \<open>Example nodes\<close>

definition c6_node :: "DataType \<Rightarrow> NodeDef" where
  "c6_node T =
     \<lparr>name = ''c'', type_string = ''Const'',
      attrs = [(''dtype'', AttrType T),
               (''value'', AttrTensor (TensorProto_default
                  \<lparr>dtype := T, has_tensor_shape := True, tensor_shape := [4], int_val := [7, 9]\<rparr>))],
      DebugString = []\<rparr>"

definition const_node :: "DataType \<Rightarrow> int list \<Rightarrow> int list \<Rightarrow> NodeDef" where
  "const_node T shape vals =
     \<lparr>name = ''c'', type_string = ''Const'',
      attrs = [(''dtype'', AttrType T),
               (''value'', AttrTensor (TensorProto_default
                  \<lparr>dtype := T, has_tensor_shape := True, tensor_shape := shape, int_val := vals\<rparr>))],
      DebugString = []\<rparr>"

definition consumer_of :: "NodeDef \<Rightarrow> Node" where
  "consumer_of producer =
     \<lparr>node_def = \<lparr>name = ''r'', type_string = ''Reshape'', attrs = [], DebugString = []\<rparr>,
      node_id = 3, num_inputs = 1,
      in_edges = [\<lparr>src = producer, src_output = 0, dst_input = 0\<rparr>]\<rparr>"

subsection \<open>Example states and operators\<close>

definition ext0 :: ext where
  "ext0 =
     \<lparr>x_infer = (\<lambda>ty ins args. Some [(et_f32, Some [Some 1, Some 3, Some 2, Some 2])]),
      x_TFDataTypeToNGraphElementType =
        (\<lambda>dt. if dt = DT_FLOAT then Inr et_f32
              else Inl (Err UNIMPLEMENTED ''Unsupported TensorFlow data type'')),
      x_GetEnv = (\<lambda>k. []),
      x_NHWCtoHW = (\<lambda>is_nhwc v. if is_nhwc then [nat (v ! 1), nat (v ! 2)]
                                   else [nat (v ! 2), nat (v ! 3)]),
      x_NHWCtoNCHW = (\<lambda>nm is_nhwc out h. Inr (out, h)),
      x_NCHWtoNHWC = (\<lambda>nm is_nhwc out h. Inr (out, h)),
      x_Transpose = (\<lambda>order out h. Inr (out, h)),
      x_MakePadding = (\<lambda>p i k st d. ([0, 0], [0, 0])),
      x_conv = (\<lambda>a b v. v),
      x_tf27 = True,
      x_oob = (\<lambda>i. 0),
      x_function_check = (\<lambda>h rs ps. None),
      x_run_passes = (\<lambda>ps h. h),
      x_other_handler = (\<lambda>f op' sim s. Inl (Err UNIMPLEMENTED f))\<rparr>"

definition param_node :: "nat list \<Rightarrow> ng_node" where
  "param_node sh =
     \<lparr>ng_type = ''Parameter'', ng_inputs = [], ng_args = [ArgEt et_f32, ArgShape sh],
      ng_outputs = [(et_f32, static_shape sh)], provenance_tags = {[]},
      needs_default_layout = False\<rparr>"

definition s_xb :: state where
  "s_xb = \<lparr>ng_heap = [param_node [1, 3, 2, 2], param_node [3]],
           ng_op_map = [''x'' \<mapsto> [(0, 0)], ''b'' \<mapsto> [(1, 0)]]\<rparr>"

definition producer :: "string \<Rightarrow> NodeDef" where
  "producer nm = \<lparr>name = nm, type_string = ''_Arg'', attrs = [], DebugString = []\<rparr>"

definition op_node :: "string \<Rightarrow> string \<Rightarrow> (string \<times> AttrValue) list \<Rightarrow> string list \<Rightarrow> Node" where
  "op_node nm ty as ins =
     \<lparr>node_def = \<lparr>name = nm, type_string = ty, attrs = as, DebugString = []\<rparr>,
      node_id = 2, num_inputs = length ins,
      in_edges = map (\<lambda>(i, p). \<lparr>src = producer p, src_output = 0, dst_input = int i\<rparr>)
                   (zip [0..<length ins] ins)\<rparr>"

definition foo_graph :: "Node list" where
  "foo_graph = [op_node ''f'' ''Foo'' [] []]"


definition arg_node :: "string \<Rightarrow> int \<Rightarrow> Node" where
  "arg_node nm i = op_node nm ''_Arg'' [(''T'', AttrType DT_FLOAT), (''index'', AttrI i)] []"

definition retval_node :: "string \<Rightarrow> int \<Rightarrow> string \<Rightarrow> Node" where
  "retval_node nm i p = op_node nm ''_Retval'' [(''index'', AttrI i)] [p]"





text \<open>
  A graph with two unrelated siblings, its node list in two orders, and the state after its
  parameter.
\<close>

definition sib_graph :: "Node list" where
  "sib_graph =
     [arg_node ''x'' 0, op_node ''a'' ''Abs'' [] [''x''], op_node ''c'' ''Exp'' [] [''x''],
      retval_node ''ra'' 0 ''a'', retval_node ''rc'' 1 ''c'']"

definition sib_graph' :: "Node list" where
  "sib_graph' =
     [arg_node ''x'' 0, op_node ''c'' ''Exp'' [] [''x''], op_node ''a'' ''Abs'' [] [''x''],
      retval_node ''ra'' 0 ''a'', retval_node ''rc'' 1 ''c'']"

definition s_x :: state where
  "s_x = \<lparr>ng_heap = [param_node [1, 3, 2, 2]], ng_op_map = [''x'' \<mapsto> [(0, 0)]]\<rparr>"

subsection \<open>Sequences of fused operators\<close>



text \<open>Outcomes: a failure with the code Unimplemented, any other outcome, and \<^verbatim>\<open>Status::OK\<close>.\<close>

definition is_unimplemented :: "fail \<Rightarrow> bool" where
  "is_unimplemented e = (case e of Err c m \<Rightarrow> c = UNIMPLEMENTED | _ \<Rightarrow> False)"

definition no_unimplemented :: "fail + 'a \<Rightarrow> bool" where
  "no_unimplemented r = (case r of Inl e \<Rightarrow> \<not> is_unimplemented e | Inr v \<Rightarrow> True)"

definition isOK :: "fail + 'a \<Rightarrow> bool" where
  "isOK r = (case r of Inl e \<Rightarrow> False | Inr v \<Rightarrow> True)"




section \<open>Properties\<close>

text \<open>
  C7. Static value resolution succeeds only for a formal-input marker or a constant node.
  For a formal-input marker the value is the StaticInputMap slot at the marker's declared
  index, and an empty slot is an (Internal) error. For a producer of any other kind the
  resolver returns an Internal error.
\<close>

theorem GetStaticNodeTensor_producers:
  "(GetStaticNodeTensor FromProto node sim = Inr t \<longrightarrow>
      IsArg node \<or> type_string node = ''Const'')
   \<and> (IsArg node \<and> GetNodeAttr_int (attrs node) ''index'' = Inr i \<and> 0 \<le> i
        \<and> i < int (length sim) \<longrightarrow>
      GetStaticNodeTensor FromProto node sim =
        (case sim ! nat i of
           None \<Rightarrow>
             Inl (Err INTERNAL
               (''GetStaticNodeTensor called on _Arg but input tensor is missing from ''
                 @ ''static input map''))
         | Some source_tensor \<Rightarrow> Inr source_tensor))
   \<and> (\<not> IsArg node \<and> type_string node \<noteq> ''Const'' \<longrightarrow>
      (\<exists>m. GetStaticNodeTensor FromProto node sim = Inl (Err INTERNAL m)))"
  by (auto simp: GetStaticNodeTensor_def split: sum.splits option.splits if_splits)

theorem GetStaticNodeTensor_producers_witness:
  "GetStaticNodeTensor (\<lambda>p. None)
      \<lparr>name = ''x'', type_string = ''_Arg'', attrs = [(''index'', AttrI 0)], DebugString = []\<rparr>
      [Some \<lparr>tensor_dtype = DT_INT32, tensor_dims = [], flat = [7]\<rparr>]
     = Inr \<lparr>tensor_dtype = DT_INT32, tensor_dims = [], flat = [7]\<rparr>
   \<and> GetStaticNodeTensor (\<lambda>p. None)
      \<lparr>name = ''x'', type_string = ''_Arg'', attrs = [(''index'', AttrI 0)], DebugString = []\<rparr>
      [None]
     = Inl (Err INTERNAL
         ''GetStaticNodeTensor called on _Arg but input tensor is missing from static input map'')
   \<and> (\<exists>m. GetStaticNodeTensor (\<lambda>p. None)
      \<lparr>name = ''y'', type_string = ''Add'', attrs = [], DebugString = []\<rparr> []
     = Inl (Err INTERNAL m))"
  using GetStaticNodeTensor_producers
    [of "\<lambda>p. None"
        "\<lparr>name = ''x'', type_string = ''_Arg'', attrs = [(''index'', AttrI 0)], DebugString = []\<rparr>"
        "[Some \<lparr>tensor_dtype = DT_INT32, tensor_dims = [], flat = [7]\<rparr>]" _ 0]
    GetStaticNodeTensor_producers
    [of "\<lambda>p. None"
        "\<lparr>name = ''x'', type_string = ''_Arg'', attrs = [(''index'', AttrI 0)], DebugString = []\<rparr>"
        "[None]" _ 0]
    GetStaticNodeTensor_producers
    [of "\<lambda>p. None" "\<lparr>name = ''y'', type_string = ''Add'', attrs = [], DebugString = []\<rparr>" "[]"]
  by (simp add: IsArg_def GetNodeAttr_int_def)

subsection \<open>Constants\<close>


lemma fill_loop_gen:
  assumes f: "switch_val_field T tensor = Some field" and k: "field \<noteq> []"
  shows "a \<le> n \<Longrightarrow> length vs = n \<Longrightarrow>
         (0 < a \<longrightarrow> lastv = cast_to T (field ! min (a - 1) (length field - 1))) \<Longrightarrow>
         fill_loop tf27 oob T tensor [a..<n] (vs, lastv) =
           Inr (take a vs @ map (\<lambda>i. cast_to T (field ! min i (length field - 1))) [a..<n])"
proof (induction d \<equiv> "n - a" arbitrary: a vs lastv)
  case 0
  then show ?case by simp
next
  case (Suc d)
  then have an: "a < n" by simp
  have up: "[a..<n] = a # [Suc a..<n]" using an by (simp add: upt_conv_Cons)
  have d: "d = n - Suc a" using Suc.hyps(2) by simp
  show ?case
  proof (cases "a < length field")
    case True
    have m: "min a (length field - 1) = a" using True by simp
    have "fill_loop tf27 oob T tensor [a..<n] (vs, lastv) =
          fill_loop tf27 oob T tensor [Suc a..<n] (vs[a := cast_to T (field ! a)], cast_to T (field ! a))"
      using True k f by (simp add: up Let_def)
    also have "\<dots> = Inr (take (Suc a) (vs[a := cast_to T (field ! a)]) @
                 map (\<lambda>i. cast_to T (field ! min i (length field - 1))) [Suc a..<n])"
      using an Suc.prems d m by (intro Suc.hyps(1)) auto
    finally show ?thesis using an Suc.prems m
      by (simp add: up take_Suc_conv_app_nth)
  next
    case False
    then have a0: "0 < a" using k by (cases a) auto
    have m: "min a (length field - 1) = length field - 1" using False by simp
    have m': "min (a - 1) (length field - 1) = length field - 1" using False k by (cases field) auto
    have lv: "lastv = cast_to T (field ! (length field - 1))" using Suc.prems(3) a0 m' by simp
    have "fill_loop tf27 oob T tensor [a..<n] (vs, lastv) =
          fill_loop tf27 oob T tensor [Suc a..<n] (vs[a := lastv], lastv)"
      using False k f by (simp add: up Let_def)
    also have "\<dots> = Inr (take (Suc a) (vs[a := lastv]) @
                 map (\<lambda>i. cast_to T (field ! min i (length field - 1))) [Suc a..<n])"
      using an Suc.prems d m lv by (intro Suc.hyps(1)) auto
    finally show ?thesis using an Suc.prems m lv
      by (simp add: up take_Suc_conv_app_nth)
  qed
qed

lemma fill_loop_fill_forward:
  assumes "switch_val_field T tensor = Some field" "field \<noteq> []"
  shows "fill_loop tf27 oob T tensor [0..<n] (replicate n 0, lastv) = Inr (fill_forward T field n)"
  using fill_loop_gen[OF assms, of 0 n "replicate n 0" lastv tf27 oob] assms(2)
  by (simp add: fill_forward_def)

lemma switch_val_field_Mutable:
  "switch_val_field T p = Some field \<Longrightarrow> MutableTensorProtoData T p = field"
  by (cases T) auto

lemma fill_forward_exact:
  "fill_forward T vals (length vals) = map (cast_to T) vals"
  by (auto simp: fill_forward_def intro!: nth_equalityI)

lemma wrap_signed_mult_left:
  "wrap_signed 64 (wrap_signed 64 a * d) = wrap_signed 64 (a * d)"
proof -
  have "(wrap_signed 64 a * d + 2 ^ 63) mod 2 ^ 64 = (a * d + 2 ^ 63) mod (2 ^ 64 :: int)"
  proof -
    have "wrap_signed 64 a mod 2 ^ 64 = a mod (2 ^ 64 :: int)"
      by (simp add: wrap_signed_def mod_simps)
    then have "(wrap_signed 64 a * d) mod 2 ^ 64 = (a * d) mod (2 ^ 64 :: int)"
      by (rule mod_mult_cong) simp
    then show ?thesis by (rule mod_add_cong) simp
  qed
  then show ?thesis by (simp add: wrap_signed_def)
qed

lemma n_elements_of_gen:
  "foldl (\<lambda>n d. wrap_signed 64 (n * d)) (wrap_signed 64 a) shape
     = wrap_signed 64 (a * prod_list shape)"
proof (induction shape arbitrary: a)
  case Nil
  then show ?case by simp
next
  case (Cons d ds)
  show ?case using Cons.IH[of "a * d"] by (simp add: wrap_signed_mult_left mult.assoc)
qed

lemma wrap_signed_id: "- (2 ^ 63) \<le> v \<Longrightarrow> v < 2 ^ 63 \<Longrightarrow> wrap_signed 64 v = v"
  by (simp add: wrap_signed_def)

lemma n_elements_of_wrap: "n_elements_of shape = wrap_signed 64 (prod_list shape)"
  using n_elements_of_gen[of 1 shape] by (simp add: n_elements_of_def wrap_signed_id)

lemma prod_list_nonneg:
  "\<not> list_ex (\<lambda>d. d < 0) (shape :: int list) \<Longrightarrow> 0 \<le> prod_list shape"
  by (induction shape) auto

lemma n_elements_of_small:
  assumes "\<not> list_ex (\<lambda>d. d < 0) shape" "prod_list shape \<le> 2 ^ 31 - 1"
  shows "n_elements_of shape = prod_list shape"
  using prod_list_nonneg[OF assms(1)] assms(2) by (simp add: n_elements_of_wrap wrap_signed_id)

lemma vector_max_size_bound: "2 ^ 31 - 1 \<le> vector_max_size T"
  by (cases T) (simp_all add: vector_max_size_def)

lemma singleton_shape_count:
  "length (shape :: int list) = 1 \<Longrightarrow> shape ! 0 = int k \<Longrightarrow> nat (prod_list shape) = k"
  by (cases shape) auto

lemma ValuesFromConstNode_loop:
  assumes c: "type_string node = ''Const''"
    and dt: "attr_at (attrs node) ''dtype'' = Inr dv" "AttrValue_type dv = T"
    and v: "attr_at (attrs node) ''value'' = Inr vv"
    and raw: "tensor_content (AttrValue_tensor vv) = []"
    and nn: "\<not> list_ex (\<lambda>d. d < 0) (tensor_shape (AttrValue_tensor vv))"
    and small: "prod_list (tensor_shape (AttrValue_tensor vv)) \<le> 2 ^ 31 - 1"
    and nc: "\<not> (MutableTensorProtoData T (AttrValue_tensor vv) \<noteq> []
               \<and> has_tensor_shape (AttrValue_tensor vv)
               \<and> length (tensor_shape (AttrValue_tensor vv)) = 1
               \<and> tensor_shape (AttrValue_tensor vv) ! 0
                  = int (length (MutableTensorProtoData T (AttrValue_tensor vv))))"
  shows "ValuesFromConstNode tf27 oob T node =
           (case fill_loop tf27 oob T (AttrValue_tensor vv)
                   [0..<nat (prod_list (tensor_shape (AttrValue_tensor vv)))]
                   (replicate (nat (prod_list (tensor_shape (AttrValue_tensor vv)))) 0,
                    cast_to T 0) of
              Inl e \<Rightarrow> Inl e
            | Inr values \<Rightarrow> Inr (tensor_shape (AttrValue_tensor vv), values))"
proof -
  let ?shape = "tensor_shape (AttrValue_tensor vv)"
  have n: "n_elements_of ?shape = prod_list ?shape" using nn small by (rule n_elements_of_small)
  have p: "0 \<le> prod_list ?shape" using nn by (rule prod_list_nonneg)
  have m: "prod_list ?shape \<le> vector_max_size T"
    using small vector_max_size_bound[of T] by simp
  have mn: "min (prod_list ?shape) (2 ^ 31) = prod_list ?shape" using small by simp
  have lt: "\<not> 2 ^ 31 \<le> prod_list ?shape" using small by simp
  show ?thesis
    unfolding ValuesFromConstNode_def Let_def
    using c dt v raw nn nc p m lt by (auto simp: n mn split: sum.splits)
qed

lemma ValuesFromConstNode_values:
  assumes c: "type_string node = ''Const''"
    and dt: "attr_at (attrs node) ''dtype'' = Inr dv" "AttrValue_type dv = T"
    and v: "attr_at (attrs node) ''value'' = Inr vv"
    and raw: "tensor_content (AttrValue_tensor vv) = []"
    and f: "switch_val_field T (AttrValue_tensor vv) = Some field" "field \<noteq> []"
    and nn: "\<not> list_ex (\<lambda>d. d < 0) (tensor_shape (AttrValue_tensor vv))"
    and small: "prod_list (tensor_shape (AttrValue_tensor vv)) \<le> 2 ^ 31 - 1"
  shows "ValuesFromConstNode tf27 oob T node =
           Inr (tensor_shape (AttrValue_tensor vv),
                fill_forward T field (nat (prod_list (tensor_shape (AttrValue_tensor vv)))))"
proof -
  have mf: "MutableTensorProtoData T (AttrValue_tensor vv) = field"
    using f(1) by (rule switch_val_field_Mutable)
  show ?thesis
  proof (cases "has_tensor_shape (AttrValue_tensor vv)
                \<and> length (tensor_shape (AttrValue_tensor vv)) = 1
                \<and> tensor_shape (AttrValue_tensor vv) ! 0 = int (length field)")
    case True
    then show ?thesis
      using c dt v mf f
      by (simp add: ValuesFromConstNode_def Let_def fill_forward_exact singleton_shape_count)
  next
    case False
    then show ?thesis
      using ValuesFromConstNode_loop[OF c dt v raw nn small, of tf27 oob] mf f
      by (simp add: fill_loop_fill_forward)
  qed
qed

lemma ValuesFromConstNode_default:
  assumes c: "type_string node = ''Const''"
    and dt: "attr_at (attrs node) ''dtype'' = Inr dv" "AttrValue_type dv = T"
    and v: "attr_at (attrs node) ''value'' = Inr vv"
    and raw: "tensor_content (AttrValue_tensor vv) = []"
    and f: "switch_val_field T (AttrValue_tensor vv) = None"
    and nn: "\<not> list_ex (\<lambda>d. d < 0) (tensor_shape (AttrValue_tensor vv))"
    and small: "prod_list (tensor_shape (AttrValue_tensor vv)) \<le> 2 ^ 31 - 1"
    and nc: "\<not> (MutableTensorProtoData T (AttrValue_tensor vv) \<noteq> []
               \<and> has_tensor_shape (AttrValue_tensor vv)
               \<and> length (tensor_shape (AttrValue_tensor vv)) = 1
               \<and> tensor_shape (AttrValue_tensor vv) ! 0
                  = int (length (MutableTensorProtoData T (AttrValue_tensor vv))))"
  shows "ValuesFromConstNode tf27 oob T node =
           (if prod_list (tensor_shape (AttrValue_tensor vv)) = 0
            then Inr (tensor_shape (AttrValue_tensor vv), [])
            else Inl (Err UNIMPLEMENTED
                   (''Encountered unknown element type '' @ DataType_Name T
                     @ '' on an empty tensor'')))"
proof (cases "prod_list (tensor_shape (AttrValue_tensor vv)) = 0")
  case True
  then show ?thesis
    using ValuesFromConstNode_loop[OF c dt v raw nn small nc, of tf27 oob] by simp
next
  case False
  with prod_list_nonneg[OF nn]
  have "0 < nat (prod_list (tensor_shape (AttrValue_tensor vv)))" by simp
  then have "[0..<nat (prod_list (tensor_shape (AttrValue_tensor vv)))]
               = 0 # [1..<nat (prod_list (tensor_shape (AttrValue_tensor vv)))]"
    by (simp add: upt_conv_Cons)
  then show ?thesis
    using ValuesFromConstNode_loop[OF c dt v raw nn small nc, of tf27 oob] f False by simp
qed

lemma switch_val_field_cases:
  "switch_val_field T p = (if T \<in> set [DT_INT32, DT_INT64, DT_FLOAT, DT_BOOL, DT_DOUBLE]
                           then Some (MutableTensorProtoData T p) else None)"
  by (cases T) simp_all

text \<open>
  C6 (as amended). Take a constant node whose payload has no raw byte buffer, whose
  declared shape has no negative dimension and \<open>n\<close> elements, \<open>n\<close> at most \<open>2^31 - 1\<close>,
  and whose value list holds \<open>k\<close> values with \<open>0 < k < n\<close>. If its element type is int32,
  int64, float, bool or double, the decoded vector has \<open>n\<close> elements, the listed value at
  every index below \<open>k\<close> and the last listed value at every index from \<open>k\<close> on (no zero
  fill); the value read past the end of the list (\<open>oob\<close>) does not reach the result. For
  every other element type, those of the constant table among them (int8, int16, uint8,
  uint16, qint8, quint8, quint16), the node is rejected with Unimplemented.
\<close>

theorem ValuesFromConstNode_fill_forward:
  assumes c: "type_string node = ''Const''"
    and dt: "attr_at (attrs node) ''dtype'' = Inr dv" "AttrValue_type dv = T"
    and v: "attr_at (attrs node) ''value'' = Inr vv"
    and raw: "tensor_content (AttrValue_tensor vv) = []"
    and f: "field = MutableTensorProtoData T (AttrValue_tensor vv)"
    and nn: "\<not> list_ex (\<lambda>d. d < 0) (tensor_shape (AttrValue_tensor vv))"
    and small: "prod_list (tensor_shape (AttrValue_tensor vv)) \<le> 2 ^ 31 - 1"
    and k: "0 < length field"
           "length field < nat (prod_list (tensor_shape (AttrValue_tensor vv)))"
  shows "(T \<in> set [DT_INT32, DT_INT64, DT_FLOAT, DT_BOOL, DT_DOUBLE] \<longrightarrow>
          ValuesFromConstNode tf27 oob T node =
            Inr (tensor_shape (AttrValue_tensor vv),
                 map (\<lambda>i. if i < length field then cast_to T (field ! i)
                           else cast_to T (field ! (length field - 1)))
                   [0..<nat (prod_list (tensor_shape (AttrValue_tensor vv)))]))
       \<and> (T \<notin> set [DT_INT32, DT_INT64, DT_FLOAT, DT_BOOL, DT_DOUBLE] \<longrightarrow>
          ValuesFromConstNode tf27 oob T node =
            Inl (Err UNIMPLEMENTED
              (''Encountered unknown element type '' @ DataType_Name T
                @ '' on an empty tensor'')))"
proof (intro conjI impI)
  assume T: "T \<in> set [DT_INT32, DT_INT64, DT_FLOAT, DT_BOOL, DT_DOUBLE]"
  have sf: "switch_val_field T (AttrValue_tensor vv) = Some field"
    using T f by (simp only: switch_val_field_cases if_True)
  have ne: "field \<noteq> []" using k(1) by auto
  have "min i (length field - 1) = (if i < length field then i else length field - 1)" for i
    using k(1) by auto
  then show "ValuesFromConstNode tf27 oob T node =
            Inr (tensor_shape (AttrValue_tensor vv),
                 map (\<lambda>i. if i < length field then cast_to T (field ! i)
                           else cast_to T (field ! (length field - 1)))
                   [0..<nat (prod_list (tensor_shape (AttrValue_tensor vv)))])"
    using ValuesFromConstNode_values[OF c dt v raw sf ne nn small, of tf27 oob] ne
    by (simp add: fill_forward_def if_distrib[of "\<lambda>j. cast_to T (field ! j)"] cong: if_cong)
next
  assume T: "T \<notin> set [DT_INT32, DT_INT64, DT_FLOAT, DT_BOOL, DT_DOUBLE]"
  have sf: "switch_val_field T (AttrValue_tensor vv) = None"
    using T by (simp only: switch_val_field_cases if_False)
  have nc: "\<not> (MutableTensorProtoData T (AttrValue_tensor vv) \<noteq> []
               \<and> has_tensor_shape (AttrValue_tensor vv)
               \<and> length (tensor_shape (AttrValue_tensor vv)) = 1
               \<and> tensor_shape (AttrValue_tensor vv) ! 0
                  = int (length (MutableTensorProtoData T (AttrValue_tensor vv))))"
    using k(2) f by (auto simp: singleton_shape_count)
  have "prod_list (tensor_shape (AttrValue_tensor vv)) \<noteq> 0" using k(2) by auto
  then show "ValuesFromConstNode tf27 oob T node =
            Inl (Err UNIMPLEMENTED
              (''Encountered unknown element type '' @ DataType_Name T
                @ '' on an empty tensor''))"
    using ValuesFromConstNode_default[OF c dt v raw sf nn small nc, of tf27 oob] by simp
qed

theorem ValuesFromConstNode_fill_forward_witness:
  "ValuesFromConstNode True (\<lambda>i. 42) DT_INT32 (c6_node DT_INT32) = Inr ([4], [7, 9, 9, 9])
   \<and> ValuesFromConstNode True (\<lambda>i. 42) DT_UINT16 (c6_node DT_UINT16) =
       Inl (Err UNIMPLEMENTED ''Encountered unknown element type DT_UINT16 on an empty tensor'')"
  using ValuesFromConstNode_fill_forward
    [of "c6_node DT_INT32" "AttrType DT_INT32"
        DT_INT32 "AttrTensor (TensorProto_default
                  \<lparr>dtype := DT_INT32, has_tensor_shape := True, tensor_shape := [4], int_val := [7, 9]\<rparr>)"
        "[7, 9]" True "\<lambda>i. 42"]
    ValuesFromConstNode_fill_forward
    [of "c6_node DT_UINT16" "AttrType DT_UINT16"
        DT_UINT16 "AttrTensor (TensorProto_default
                  \<lparr>dtype := DT_UINT16, has_tensor_shape := True, tensor_shape := [4], int_val := [7, 9]\<rparr>)"
        "[7, 9]" True "\<lambda>i. 42"]
  by (simp add: c6_node_def attr_at_def AttrValue_type_def AttrValue_tensor_def
        TensorProto_default_def wrap_signed_def upt_conv_Cons numeral_eq_Suc)

text \<open>
  The claim as stated covers every constant node and every shape. For an int8 constant of
  shape \<open>[4]\<close> with two listed values the fill loop reaches the \<^verbatim>\<open>default\<close> branch of its
  switch. For an int32 constant of shape \<open>[3, 6148914691236517206]\<close>, of \<open>2^64 + 2\<close>
  elements, with one listed value, the 64-bit product wraps around to 2 and two values are
  decoded.
\<close>

theorem ValuesFromConstNode_int8_counterexample:
  "ValuesFromConstNode True (\<lambda>i. 42) DT_INT8 (c6_node DT_INT8) =
     Inl (Err UNIMPLEMENTED ''Encountered unknown element type DT_INT8 on an empty tensor'')
   \<and> ValuesFromConstNode True (\<lambda>i. 42) DT_INT32
       (const_node DT_INT32 [3, 6148914691236517206] [7]) =
     Inr ([3, 6148914691236517206], [7, 7])"
proof -
  have n: "n_elements_of [3, 6148914691236517206] = 2"
    by (simp add: n_elements_of_def wrap_signed_def)
  have u: "[0..<2] = [0, 1]" "replicate 2 (0 :: int) = [0, 0]"
    by (simp_all add: upt_conv_Cons numeral_2_eq_2)
  have 1: "ValuesFromConstNode True (\<lambda>i. 42) DT_INT8 (c6_node DT_INT8) =
     Inl (Err UNIMPLEMENTED ''Encountered unknown element type DT_INT8 on an empty tensor'')"
    by (simp add: ValuesFromConstNode_def c6_node_def attr_at_def AttrValue_type_def
          AttrValue_tensor_def TensorProto_default_def n_elements_of_def vector_max_size_def
          wrap_signed_def upt_conv_Cons)
  have 2: "ValuesFromConstNode True (\<lambda>i. 42) DT_INT32
       (const_node DT_INT32 [3, 6148914691236517206] [7]) =
     Inr ([3, 6148914691236517206], [7, 7])"
    by (simp add: ValuesFromConstNode_def const_node_def attr_at_def AttrValue_type_def
          AttrValue_tensor_def TensorProto_default_def n vector_max_size_def u
          wrap_signed_def Let_def)
  from 1 2 show ?thesis by (rule conjI)
qed

lemma ValuesFromConstNode_exact:
  assumes c: "type_string node = ''Const''"
    and dt: "attr_at (attrs node) ''dtype'' = Inr dv" "AttrValue_type dv = T"
    and v: "attr_at (attrs node) ''value'' = Inr vv"
    and ne: "MutableTensorProtoData T (AttrValue_tensor vv) \<noteq> []"
    and sh: "has_tensor_shape (AttrValue_tensor vv)"
            "tensor_shape (AttrValue_tensor vv)
               = [int (length (MutableTensorProtoData T (AttrValue_tensor vv)))]"
  shows "ValuesFromConstNode tf27 oob T node =
           Inr (tensor_shape (AttrValue_tensor vv),
                map (cast_to T) (MutableTensorProtoData T (AttrValue_tensor vv)))"
  using c dt v ne sh by (simp add: ValuesFromConstNode_def Let_def)

lemma GetStaticInputVector_const:
  assumes c: "type_string node = ''Const''"
    and v: "attr_at (attrs node) ''value'' = Inr (AttrTensor p)"
    and pd: "dtype p = T"
    and raw: "tensor_content p = []"
    and nn: "\<not> list_ex (\<lambda>d. d < 0) (tensor_shape p)"
    and cons: "input_node op' idx = Inr node"
  shows "GetStaticInputVector Tensor_FromProto conv T op' idx sim =
           Inr (fill_forward T (MutableTensorProtoData T p) (nat (prod_list (tensor_shape p))))"
  using assms
  by (simp add: GetStaticInputVector_def GetStaticNodeTensor_def IsArg_def Tensor_FromProto_def
        AttrValue_tensor_def TensorDataToVector_def)

text \<open>
  C8 (as amended). Take a constant node of a supported element type \<open>T\<close>, built from a
  non-empty value list, with no raw bytes, no negative dimension and at most \<open>2^31 - 1\<close>
  elements. Read at type \<open>T\<close>, the Static Value Resolver gives the list cut or filled
  forward to the declared element count. The constant materializer decodes the same values
  when \<open>T\<close> is int32, int64, float, bool or double, or the declared shape is one-dimensional
  with exactly the list's length, or the declared shape has no element. In every other case
  (int8, int16, uint8, uint16, qint8, quint8 or quint16 with a shape of at least one element
  that is not the list's length) the materializer fails with Unimplemented.
\<close>

theorem const_round_trip:
  assumes c: "type_string node = ''Const''"
    and sup: "T \<in> set TF_NGRAPH_CONST_MAP_keys"
    and dt: "attr_at (attrs node) ''dtype'' = Inr (AttrType T)"
    and v: "attr_at (attrs node) ''value'' = Inr (AttrTensor p)"
    and pd: "dtype p = T"
    and raw: "tensor_content p = []"
    and nn: "\<not> list_ex (\<lambda>d. d < 0) (tensor_shape p)"
    and small: "prod_list (tensor_shape p) \<le> 2 ^ 31 - 1"
    and ne: "MutableTensorProtoData T p \<noteq> []"
    and cons: "input_node op' idx = Inr node"
  shows "GetStaticInputVector Tensor_FromProto conv T op' idx sim =
           Inr (fill_forward T (MutableTensorProtoData T p) (nat (prod_list (tensor_shape p))))
         \<and> (T \<in> set [DT_INT32, DT_INT64, DT_FLOAT, DT_BOOL, DT_DOUBLE]
              \<or> (has_tensor_shape p
                  \<and> tensor_shape p = [int (length (MutableTensorProtoData T p))])
              \<or> prod_list (tensor_shape p) = 0 \<longrightarrow>
            ValuesFromConstNode tf27 oob T node =
              Inr (tensor_shape p,
                   fill_forward T (MutableTensorProtoData T p)
                     (nat (prod_list (tensor_shape p)))))
         \<and> (\<not> (T \<in> set [DT_INT32, DT_INT64, DT_FLOAT, DT_BOOL, DT_DOUBLE]
              \<or> (has_tensor_shape p
                  \<and> tensor_shape p = [int (length (MutableTensorProtoData T p))])
              \<or> prod_list (tensor_shape p) = 0) \<longrightarrow>
            ValuesFromConstNode tf27 oob T node =
              Inl (Err UNIMPLEMENTED
                (''Encountered unknown element type '' @ DataType_Name T
                  @ '' on an empty tensor'')))"
proof -
  let ?vals = "MutableTensorProtoData T p"
  let ?ff = "fill_forward T ?vals (nat (prod_list (tensor_shape p)))"
  let ?compact = "has_tensor_shape p \<and> tensor_shape p = [int (length ?vals)]"
  let ?five = "T \<in> set [DT_INT32, DT_INT64, DT_FLOAT, DT_BOOL, DT_DOUBLE]"
  note vfc = c dt[unfolded AttrValue_type_def] v
  have t: "AttrValue_type (AttrType T) = T" "AttrValue_tensor (AttrTensor p) = p"
    by (simp_all add: AttrValue_type_def AttrValue_tensor_def)
  have r: "GetStaticInputVector Tensor_FromProto conv T op' idx sim = Inr ?ff"
    using c v pd raw nn cons by (rule GetStaticInputVector_const)
  have five: "ValuesFromConstNode tf27 oob T node = Inr (tensor_shape p, ?ff)" if ?five
  proof -
    have f: "switch_val_field T (AttrValue_tensor (AttrTensor p)) = Some ?vals"
      using that by (simp only: switch_val_field_cases if_True t)
    show ?thesis
      using ValuesFromConstNode_values[OF c dt t(1) v _ f, of tf27 oob] raw nn small ne
      by (simp add: t)
  qed
  have compact: "ValuesFromConstNode tf27 oob T node = Inr (tensor_shape p, ?ff)" if ?compact
    using ValuesFromConstNode_exact[OF c dt t(1) v, of tf27 oob] that ne
    by (simp add: t fill_forward_exact)
  have nc: "\<not> (?vals \<noteq> [] \<and> has_tensor_shape p \<and> length (tensor_shape p) = 1
               \<and> tensor_shape p ! 0 = int (length ?vals))" if "\<not> ?compact"
  proof
    assume a: "?vals \<noteq> [] \<and> has_tensor_shape p \<and> length (tensor_shape p) = 1
               \<and> tensor_shape p ! 0 = int (length ?vals)"
    then have "tensor_shape p = [int (length ?vals)]"
      by (cases "tensor_shape p") auto
    with a that show False by simp
  qed
  have other: "ValuesFromConstNode tf27 oob T node =
           (if prod_list (tensor_shape p) = 0 then Inr (tensor_shape p, [])
            else Inl (Err UNIMPLEMENTED
                   (''Encountered unknown element type '' @ DataType_Name T
                     @ '' on an empty tensor'')))" if "\<not> ?five" "\<not> ?compact"
  proof -
    have f: "switch_val_field T (AttrValue_tensor (AttrTensor p)) = None"
      using that(1) by (simp only: switch_val_field_cases if_False t)
    show ?thesis
      using ValuesFromConstNode_default[OF c dt t(1) v _ f, of tf27 oob] raw nn small
        nc[OF that(2)]
      by (simp add: t)
  qed
  have empty: "ValuesFromConstNode tf27 oob T node = Inr (tensor_shape p, ?ff)"
    if "prod_list (tensor_shape p) = 0"
  proof (cases "?five \<or> ?compact")
    case True
    then show ?thesis using five compact by blast
  next
    case False
    then show ?thesis using other that by (simp add: fill_forward_def)
  qed
  show ?thesis
  proof (intro conjI impI)
    show "GetStaticInputVector Tensor_FromProto conv T op' idx sim = Inr ?ff" by (rule r)
  next
    assume "?five \<or> ?compact \<or> prod_list (tensor_shape p) = 0"
    then show "ValuesFromConstNode tf27 oob T node = Inr (tensor_shape p, ?ff)"
      using five compact empty by blast
  next
    assume "\<not> (?five \<or> ?compact \<or> prod_list (tensor_shape p) = 0)"
    then show "ValuesFromConstNode tf27 oob T node =
              Inl (Err UNIMPLEMENTED
                (''Encountered unknown element type '' @ DataType_Name T
                  @ '' on an empty tensor''))"
      using other by simp
  qed
qed

theorem const_round_trip_witness:
  "ValuesFromConstNode True (\<lambda>i. 42) DT_INT32 (const_node DT_INT32 [2, 2] [1, 2, 3])
     = Inr ([2, 2], [1, 2, 3, 3])
   \<and> GetStaticInputVector Tensor_FromProto (\<lambda>a b v. v) DT_INT32
       (consumer_of (const_node DT_INT32 [2, 2] [1, 2, 3])) 0 []
     = Inr [1, 2, 3, 3]
   \<and> ValuesFromConstNode True (\<lambda>i. 42) DT_INT8 (const_node DT_INT8 [0] [5]) = Inr ([0], [])
   \<and> GetStaticInputVector Tensor_FromProto (\<lambda>a b v. v) DT_INT8
       (consumer_of (const_node DT_INT8 [0] [5])) 0 []
     = Inr []
   \<and> ValuesFromConstNode True (\<lambda>i. 42) DT_INT16 (const_node DT_INT16 [2] [5])
     = Inl (Err UNIMPLEMENTED ''Encountered unknown element type DT_INT16 on an empty tensor'')"
  using const_round_trip
    [of "const_node DT_INT32 [2, 2] [1, 2, 3]" DT_INT32
        "TensorProto_default
           \<lparr>dtype := DT_INT32, has_tensor_shape := True, tensor_shape := [2, 2], int_val := [1, 2, 3]\<rparr>"
        "consumer_of (const_node DT_INT32 [2, 2] [1, 2, 3])" 0 "\<lambda>a b v. v" "[]" True "\<lambda>i. 42"]
    const_round_trip
    [of "const_node DT_INT8 [0] [5]" DT_INT8
        "TensorProto_default
           \<lparr>dtype := DT_INT8, has_tensor_shape := True, tensor_shape := [0], int_val := [5]\<rparr>"
        "consumer_of (const_node DT_INT8 [0] [5])" 0 "\<lambda>a b v. v" "[]" True "\<lambda>i. 42"]
    const_round_trip
    [of "const_node DT_INT16 [2] [5]" DT_INT16
        "TensorProto_default
           \<lparr>dtype := DT_INT16, has_tensor_shape := True, tensor_shape := [2], int_val := [5]\<rparr>"
        "consumer_of (const_node DT_INT16 [2] [5])" 0 "\<lambda>a b v. v" "[]" True "\<lambda>i. 42"]
  by (simp add: const_node_def consumer_of_def attr_at_def TensorProto_default_def
        TF_NGRAPH_CONST_MAP_keys_def input_node_def input_edge_def fill_forward_def
        wrap_signed_def upt_conv_Cons numeral_eq_Suc)

text \<open>
  For a scalar int8 constant with the value list \<open>[5]\<close> the resolver reads \<open>[5]\<close>, and the
  materializer fails: int8 is in the constant table, but not in the switch of the fill loop.
\<close>

theorem const_round_trip_int8_counterexample:
  "ValuesFromConstNode True (\<lambda>i. 42) DT_INT8 (const_node DT_INT8 [] [5])
     = Inl (Err UNIMPLEMENTED ''Encountered unknown element type DT_INT8 on an empty tensor'')
   \<and> GetStaticInputVector Tensor_FromProto (\<lambda>a b v. v) DT_INT8
       (consumer_of (const_node DT_INT8 [] [5])) 0 []
     = Inr [5]"
  by (simp add: ValuesFromConstNode_def GetStaticInputVector_def GetStaticNodeTensor_def
        Tensor_FromProto_def TensorDataToVector_def IsArg_def
        const_node_def consumer_of_def attr_at_def AttrValue_type_def AttrValue_tensor_def
        TensorProto_default_def input_node_def input_edge_def fill_forward_def
        n_elements_of_def vector_max_size_def wrap_signed_def upt_conv_Cons)

subsection \<open>Provenance tags\<close>


lemmas ex_defs = ext0_def param_node_def s_xb_def producer_def op_node_def

lemmas eval_defs = GetInputNodes_def ValidateInputCount_def GetInputNode_def input_edges_def
  input_node_def input_edge_def IsControlEdge_def RETURN_IF_ERROR_def save_def SaveNgOp_def
  ConstructNgNode_def make_shared_def infer_types_def SetTracingInfo_def get_shape_def
  get_partial_shape_def output_type_def is_static_def to_shape_def static_shape_def Let_def
  shape_size_def

lemma GetInputNodes_BiasAdd_example:
  "GetInputNodes (ng_op_map s_xb)
     (op_node ''ba'' ''BiasAdd'' [(''data_format'', AttrS ''NCHW'')] [''x'', ''b'']) 2
   = Inr [(0, 0), (1, 0)]"
  by (simp add: ex_defs eval_defs upt_conv_Cons numeral_eq_Suc)

lemma ConstructNgNode_tag:
  assumes "ConstructNgNode ifn ty tag ins args h = Inr (out, h')"
  shows "out = (length h, 0) \<and> length h' = Suc (length h) \<and> take (length h) h' = h
         \<and> provenance_tags (h' ! length h) = {tag}"
  using assms
  by (auto simp: ConstructNgNode_def make_shared_def SetTracingInfo_def nth_append
        split: sum.splits option.splits)

lemma SetTracingInfo_tag:
  "fst r < length h \<Longrightarrow> tag \<in> provenance_tags (SetTracingInfo tag r h ! fst r)"
  by (simp add: SetTracingInfo_def)

text \<open>
  C9 (as amended). A node constructed through \<^verbatim>\<open>ConstructNgNode\<close> is new and carries
  exactly the provenance tag given (the source node's name, or a name derived from it). The
  result of a unary or binary handler carries the source node's name as a tag unless the
  construction function returned one of the inputs unchanged; then no tag is set, and the
  store is the one the construction function left. \<^verbatim>\<open>Identity\<close> constructs nothing and
  sets no tag: it saves its input.
\<close>

theorem provenance_tags_set:
  "(ConstructNgNode ifn ty tag ins args h = Inr (out, h') \<longrightarrow>
      out = (length h, 0) \<and> length h' = Suc (length h) \<and> take (length h) h' = h
      \<and> provenance_tags (h' ! length h) = {tag})
   \<and> (TranslateUnaryOp op' s c = Inr s' \<and> GetInputNodes (ng_op_map s) op' 1 = Inr ins1
        \<and> c (ins1 ! 0) (ng_heap s) = Inr (r, h1) \<and> fst r < length h1 \<longrightarrow>
      ng_op_map s' = SaveNgOp (ng_op_map s) (name (node_def op')) r
      \<and> (r \<noteq> ins1 ! 0 \<longrightarrow> name (node_def op') \<in> provenance_tags (ng_heap s' ! fst r))
      \<and> (r = ins1 ! 0 \<longrightarrow> ng_heap s' = h1))
   \<and> (TranslateBinaryOp op' s c2 = Inr s' \<and> GetInputNodes (ng_op_map s) op' 2 = Inr ins2
        \<and> c2 (ins2 ! 0) (ins2 ! 1) (ng_heap s) = Inr (r, h1) \<and> fst r < length h1 \<longrightarrow>
      ng_op_map s' = SaveNgOp (ng_op_map s) (name (node_def op')) r
      \<and> (r \<noteq> ins2 ! 0 \<and> r \<noteq> ins2 ! 1 \<longrightarrow>
            name (node_def op') \<in> provenance_tags (ng_heap s' ! fst r))
      \<and> (r = ins2 ! 0 \<or> r = ins2 ! 1 \<longrightarrow> ng_heap s' = h1))
   \<and> (TranslateIdentityOp op' sim s = Inr s' \<and> GetInputNodes (ng_op_map s) op' 1 = Inr ins1 \<longrightarrow>
      ng_heap s' = ng_heap s
      \<and> ng_op_map s' = SaveNgOp (ng_op_map s) (name (node_def op')) (ins1 ! 0))"
proof (intro conjI impI)
  assume "ConstructNgNode ifn ty tag ins args h = Inr (out, h')"
  from ConstructNgNode_tag[OF this]
  show "out = (length h, 0)" "length h' = Suc (length h)" "take (length h) h' = h"
    "provenance_tags (h' ! length h) = {tag}" by simp_all
next
  assume a: "TranslateUnaryOp op' s c = Inr s' \<and> GetInputNodes (ng_op_map s) op' 1 = Inr ins1
        \<and> c (ins1 ! 0) (ng_heap s) = Inr (r, h1) \<and> fst r < length h1"
  then have s': "s' = \<lparr>ng_heap = (if r \<noteq> ins1 ! 0 then SetTracingInfo (name (node_def op')) r h1
                                   else h1),
                       ng_op_map = SaveNgOp (ng_op_map s) (name (node_def op')) r\<rparr>"
    by (auto simp: TranslateUnaryOp_def Let_def)
  show "ng_op_map s' = SaveNgOp (ng_op_map s) (name (node_def op')) r" using s' by simp
  show "name (node_def op') \<in> provenance_tags (ng_heap s' ! fst r)" if "r \<noteq> ins1 ! 0"
    using s' that a by (simp add: SetTracingInfo_tag)
  show "ng_heap s' = h1" if "r = ins1 ! 0" using s' that by simp
next
  assume a: "TranslateBinaryOp op' s c2 = Inr s' \<and> GetInputNodes (ng_op_map s) op' 2 = Inr ins2
        \<and> c2 (ins2 ! 0) (ins2 ! 1) (ng_heap s) = Inr (r, h1) \<and> fst r < length h1"
  then have s': "s' = \<lparr>ng_heap = (if r \<noteq> ins2 ! 0 \<and> r \<noteq> ins2 ! 1
                                   then SetTracingInfo (name (node_def op')) r h1 else h1),
                       ng_op_map = SaveNgOp (ng_op_map s) (name (node_def op')) r\<rparr>"
    by (auto simp: TranslateBinaryOp_def Let_def)
  show "ng_op_map s' = SaveNgOp (ng_op_map s) (name (node_def op')) r" using s' by simp
  show "name (node_def op') \<in> provenance_tags (ng_heap s' ! fst r)"
    if "r \<noteq> ins2 ! 0 \<and> r \<noteq> ins2 ! 1"
    using s' that a by (simp add: SetTracingInfo_tag)
  show "ng_heap s' = h1" if "r = ins2 ! 0 \<or> r = ins2 ! 1" using s' that by auto
next
  assume a: "TranslateIdentityOp op' sim s = Inr s' \<and> GetInputNodes (ng_op_map s) op' 1 = Inr ins1"
  then have s': "s' = s\<lparr>ng_op_map := SaveNgOp (ng_op_map s) (name (node_def op')) (ins1 ! 0)\<rparr>"
    by (auto simp: TranslateIdentityOp_def)
  show "ng_heap s' = ng_heap s" using s' by simp
  show "ng_op_map s' = SaveNgOp (ng_op_map s) (name (node_def op')) (ins1 ! 0)" using s' by simp
qed

theorem provenance_tags_set_witness:
  "(\<exists>out h'. ConstructNgNode (x_infer ext0) ''Abs'' ''a'' [(0, 0)] [] (ng_heap s_xb) = Inr (out, h')
       \<and> out = (2, 0) \<and> provenance_tags (h' ! 2) = {''a''})
   \<and> (\<exists>s'. TranslateUnaryOp_T ext0 ''Abs'' (op_node ''a'' ''Abs'' [] [''x'']) [] s_xb = Inr s'
       \<and> ''a'' \<in> provenance_tags (ng_heap s' ! 2))
   \<and> (\<exists>s'. TranslateUnaryOp (op_node ''a'' ''Abs'' [] [''x'']) s_xb (\<lambda>n h. Inr (n, h)) = Inr s'
       \<and> ng_heap s' = ng_heap s_xb)
   \<and> (\<exists>s'. TranslateBinaryOp_T ext0 ''Add'' (op_node ''p'' ''Add'' [] [''x'', ''b'']) [] s_xb = Inr s'
       \<and> ''p'' \<in> provenance_tags (ng_heap s' ! 2))
   \<and> (\<exists>s'. TranslateIdentityOp (op_node ''i'' ''Identity'' [] [''x'']) [] s_xb = Inr s'
       \<and> ng_heap s' = ng_heap s_xb \<and> ng_op_map s' ''i'' = Some [(0, 0)])"
proof -
  let ?a = "op_node ''a'' ''Abs'' [] [''x'']"
  let ?p = "op_node ''p'' ''Add'' [] [''x'', ''b'']"
  let ?i = "op_node ''i'' ''Identity'' [] [''x'']"
  let ?c = "\<lambda>n. ConstructNgNode (x_infer ext0) ''Abs'' ''a'' [n] []"
  let ?c2 = "\<lambda>l r. ConstructNgNode (x_infer ext0) ''Add'' ''p'' [l, r] []"
  have ia: "GetInputNodes (ng_op_map s_xb) ?a 1 = Inr [(0, 0)]"
    by (simp add: ex_defs eval_defs)
  have ip: "GetInputNodes (ng_op_map s_xb) ?p 2 = Inr [(0, 0), (1, 0)]"
    by (simp add: ex_defs eval_defs upt_conv_Cons numeral_eq_Suc)
  have ii: "GetInputNodes (ng_op_map s_xb) ?i 1 = Inr [(0, 0)]"
    by (simp add: ex_defs eval_defs)
  obtain out h' where c: "?c (0, 0) (ng_heap s_xb) = Inr (out, h')"
    by (simp add: ex_defs eval_defs)
  note C = provenance_tags_set[where ifn = "x_infer ext0" and ty = "''Abs''" and tag = "''a''"
      and ins = "[(0, 0)]" and args = "[]" and h = "ng_heap s_xb" and out = out and h' = h',
      THEN conjunct1, rule_format, OF c]
  have l: "length (ng_heap s_xb) = 2" by (simp add: s_xb_def)
  have 1: "\<exists>out h'. ConstructNgNode (x_infer ext0) ''Abs'' ''a'' [(0, 0)] [] (ng_heap s_xb)
             = Inr (out, h') \<and> out = (2, 0) \<and> provenance_tags (h' ! 2) = {''a''}"
    using c C l by auto
  obtain s1 where u: "TranslateUnaryOp ?a s_xb ?c = Inr s1"
    using ia c by (simp add: TranslateUnaryOp_def)
  have nm: "name (node_def ?a) = ''a''" "name (node_def ?p) = ''p''" "name (node_def ?i) = ''i''"
    by (simp_all add: op_node_def)
  have 2: "''a'' \<in> provenance_tags (ng_heap s1 ! 2)"
    using provenance_tags_set[where op' = ?a and s = s_xb and c = ?c and s' = s1
        and ?ins1.0 = "[(0, 0)]" and r = out and ?h1.0 = h',
        THEN conjunct2, THEN conjunct1] u ia c C l nm
    by auto
  obtain s2 where f: "TranslateUnaryOp ?a s_xb (\<lambda>n h. Inr (n, h)) = Inr s2"
    using ia by (simp add: TranslateUnaryOp_def)
  have 3: "ng_heap s2 = ng_heap s_xb"
    using provenance_tags_set[where op' = ?a and s = s_xb and c = "\<lambda>n h. Inr (n, h)" and s' = s2
        and ?ins1.0 = "[(0, 0)]" and r = "(0, 0)" and ?h1.0 = "ng_heap s_xb",
        THEN conjunct2, THEN conjunct1] f ia l
    by auto
  obtain out2 h2 where c2: "?c2 (0, 0) (1, 0) (ng_heap s_xb) = Inr (out2, h2)"
    by (simp add: ex_defs eval_defs)
  note C2 = ConstructNgNode_tag[OF c2]
  obtain s3 where b: "TranslateBinaryOp ?p s_xb ?c2 = Inr s3"
    using ip c2 by (simp add: TranslateBinaryOp_def)
  have 4: "''p'' \<in> provenance_tags (ng_heap s3 ! 2)"
    using provenance_tags_set[where op' = ?p and s = s_xb and ?c2.0 = ?c2 and s' = s3
        and ?ins2.0 = "[(0, 0), (1, 0)]" and r = out2 and ?h1.0 = h2,
        THEN conjunct2, THEN conjunct2, THEN conjunct1] b ip c2 C2 l nm
    by auto
  obtain s4 where d: "TranslateIdentityOp ?i [] s_xb = Inr s4"
    using ii by (simp add: TranslateIdentityOp_def)
  have 5: "ng_heap s4 = ng_heap s_xb \<and> ng_op_map s4 ''i'' = Some [(0, 0)]"
    using provenance_tags_set[where op' = ?i and s = s_xb and sim = "[]" and s' = s4
        and ?ins1.0 = "[(0, 0)]",
        THEN conjunct2, THEN conjunct2, THEN conjunct2] d ii nm
    by (auto simp: SaveNgOp_def s_xb_def)
  show ?thesis
    using 1 2 3 4 5 u f b d nm by (auto simp: TranslateUnaryOp_T_def TranslateBinaryOp_T_def)
qed

text \<open>
  A handler also constructs nodes that are never tagged: for a \<^verbatim>\<open>BiasAdd\<close> in NCHW
  format the target-shape constant of the reshape is built with \<^verbatim>\<open>make_shared\<close>. Of the
  three nodes the handler adds to the store, the first (address 2) has no provenance tag.
\<close>

theorem TranslateBiasAddOp_untagged_counterexample:
  "case TranslateBiasAddOp ext0
          (op_node ''ba'' ''BiasAdd'' [(''data_format'', AttrS ''NCHW'')] [''x'', ''b'']) [] s_xb of
     Inl e \<Rightarrow> False
   | Inr s' \<Rightarrow>
       length (ng_heap s') = 5 \<and> ng_type (ng_heap s' ! 2) = ''Constant''
       \<and> provenance_tags (ng_heap s' ! 2) = {} \<and> ng_op_map s' ''ba'' = Some [(4, 0)]"
  by (simp add: TranslateBiasAddOp_def GetInputNodes_BiasAdd_example GetNodeAttr_string_def
        ex_defs eval_defs upt_conv_Cons numeral_eq_Suc)

subsection \<open>The driver and the registry\<close>

lemma RETURN_IF_ERROR_simps [simp]:
  "RETURN_IF_ERROR (Inl e) f = Inl e"
  "RETURN_IF_ERROR (Inr v) f = f v"
  by (simp_all add: RETURN_IF_ERROR_def)

lemma Foo_unregistered: "map_of TRANSLATE_OP_MAP ''Foo'' = None"
  by (simp add: TRANSLATE_OP_MAP_def)

lemma foo_graph_order: "GetReversePostOrder foo_graph = foo_graph"
  by (simp add: GetReversePostOrder_def foo_graph_def op_node_def ready_def)

lemma foo_graph_split:
  "split_ops foo_graph ([], [], []) = Inr ([], [], foo_graph)"
  by (simp add: foo_graph_def op_node_def IsSink_def IsSource_def IsControlFlow_def IsArg_def
        IsRetval_def)

lemma TranslateGraph_foo_graph:
  "TranslateGraph ext0 [] [] foo_graph ''g'' [] []
     = Inl (Err INVALID_ARGUMENT ''No translation handler registered for op: f (Foo)\<newline>'')"
  by (simp add: TranslateGraph_def foo_graph_order foo_graph_split)
     (simp add: foo_graph_def op_node_def op_step_def Foo_unregistered)

text \<open>
  C10. The overload of \<^verbatim>\<open>TranslateGraph\<close> without the result list and the input tensors
  never returns an error status: when the inner call returns an error status, it returns
  OK (and leaves the function unset); when the inner call succeeds, it returns OK with the
  function. (An exception or a crash of the inner call is not a status and is not turned
  into one.)
\<close>

theorem TranslateGraph5_returns_OK:
  "(\<forall>c m. TranslateGraph5 x inputs sim g nm \<noteq> Inl (Err c m))
   \<and> (TranslateGraph x inputs sim g nm [] [] = Inl (Err c m) \<longrightarrow>
        TranslateGraph5 x inputs sim g nm = Inr None)
   \<and> (TranslateGraph x inputs sim g nm [] [] = Inr (f, rl, h) \<longrightarrow>
        TranslateGraph5 x inputs sim g nm = Inr (Some (f, h)))"
  by (auto simp: TranslateGraph5_def split: sum.splits fail.splits)

theorem TranslateGraph5_returns_OK_witness:
  "(\<exists>c m. TranslateGraph ext0 [] [] foo_graph ''g'' [] [] = Inl (Err c m))
   \<and> TranslateGraph5 ext0 [] [] foo_graph ''g'' = Inr None"
  using TranslateGraph5_returns_OK[of ext0 "[]" "[]" foo_graph "''g''" INVALID_ARGUMENT
      "''No translation handler registered for op: f (Foo)\<newline>''"]
    TranslateGraph_foo_graph
  by simp

lemma translate_ops_append:
  "translate_ops x sim (pre @ post) s =
     RETURN_IF_ERROR (translate_ops x sim pre s) (translate_ops x sim post)"
proof (induction pre arbitrary: s)
  case Nil
  then show ?case by simp
next
  case (Cons a pre)
  then show ?case by (cases "op_step x sim a s") simp_all
qed

lemma op_step_unregistered:
  "map_of TRANSLATE_OP_MAP (type_string (node_def op')) = None \<Longrightarrow>
   op_step x sim op' s =
     Inl (Err INVALID_ARGUMENT
       (''No translation handler registered for op: '' @ name (node_def op') @ '' (''
         @ type_string (node_def op') @ '')\<newline>'' @ DebugString (node_def op')))"
  by (simp add: op_step_def)

lemma translate_ops_unregistered:
  "list_ex (\<lambda>op'. map_of TRANSLATE_OP_MAP (type_string (node_def op')) = None) tf_ops \<Longrightarrow>
   translate_ops x sim tf_ops s \<noteq> Inr s'"
proof (induction tf_ops arbitrary: s)
  case Nil
  then show ?case by simp
next
  case (Cons a tf_ops)
  show ?case
  proof (cases "map_of TRANSLATE_OP_MAP (type_string (node_def a)) = None")
    case True
    then show ?thesis by (simp add: op_step_unregistered)
  next
    case False
    with Cons.prems have "list_ex (\<lambda>op'. map_of TRANSLATE_OP_MAP (type_string (node_def op')) = None) tf_ops"
      by simp
    from Cons.IH[OF this] show ?thesis by (cases "op_step x sim a s") simp_all
  qed
qed

text \<open>
  C1 (as amended). Let an interior node \<open>op'\<close> have an operator kind with no entry in
  \<^verbatim>\<open>TRANSLATE_OP_MAP\<close>. Then \<^verbatim>\<open>TranslateGraph\<close> never succeeds; and when the parameters and
  the operators before \<open>op'\<close> have been translated, it stops with an InvalidArgument error
  whose message has the node's name, its kind and its serialized definition.
\<close>

theorem unregistered_op_aborts:
  assumes sp: "split_ops (GetReversePostOrder g) ([], [], []) = Inr (tf_params, tf_ret_vals, tf_ops)"
    and un: "map_of TRANSLATE_OP_MAP (type_string (node_def op')) = None"
    and mem: "tf_ops = pre @ op' # post"
  shows "(\<forall>r. TranslateGraph x inputs sim g nm rl tfi \<noteq> Inr r)
    \<and> (\<forall>s1 pl s2.
          populate_parameters x inputs tfi tf_params
            (\<lparr>ng_heap = [], ng_op_map = Map.empty\<rparr>, replicate (length tf_params) None)
            = Inr (s1, pl)
          \<and> translate_ops x sim pre s1 = Inr s2 \<longrightarrow>
          TranslateGraph x inputs sim g nm rl tfi =
            Inl (Err INVALID_ARGUMENT
              (''No translation handler registered for op: '' @ name (node_def op') @ '' (''
                @ type_string (node_def op') @ '')\<newline>'' @ DebugString (node_def op'))))"
proof (intro conjI allI impI)
  fix r
  have ex: "list_ex (\<lambda>op'. map_of TRANSLATE_OP_MAP (type_string (node_def op')) = None) tf_ops"
    using un mem by (simp add: list_ex_iff) 
  show "TranslateGraph x inputs sim g nm rl tfi \<noteq> Inr r"
  proof
    assume a: "TranslateGraph x inputs sim g nm rl tfi = Inr r"
    show False
    proof (cases "populate_parameters x inputs tfi tf_params
            (\<lparr>ng_heap = [], ng_op_map = Map.empty\<rparr>, replicate (length tf_params) None)")
      case (Inl e)
      with a sp show False by (simp add: TranslateGraph_def)
    next
      case (Inr sp1)
      obtain s1 pl where sp1: "sp1 = (s1, pl)" by (cases sp1)
      show False
      proof (cases "translate_ops x sim tf_ops s1")
        case (Inl e)
        with a sp Inr sp1 show False by (simp add: TranslateGraph_def)
      next
        case (Inr s2)
        with translate_ops_unregistered[OF ex] show False by blast
      qed
    qed
  qed
next
  fix s1 pl s2
  assume a: "populate_parameters x inputs tfi tf_params
            (\<lparr>ng_heap = [], ng_op_map = Map.empty\<rparr>, replicate (length tf_params) None)
            = Inr (s1, pl)
          \<and> translate_ops x sim pre s1 = Inr s2"
  have "translate_ops x sim tf_ops s1 =
          Inl (Err INVALID_ARGUMENT
              (''No translation handler registered for op: '' @ name (node_def op') @ '' (''
                @ type_string (node_def op') @ '')\<newline>'' @ DebugString (node_def op')))"
    using a un by (simp add: mem translate_ops_append op_step_unregistered)
  then show "TranslateGraph x inputs sim g nm rl tfi =
            Inl (Err INVALID_ARGUMENT
              (''No translation handler registered for op: '' @ name (node_def op') @ '' (''
                @ type_string (node_def op') @ '')\<newline>'' @ DebugString (node_def op')))"
    using a sp by (simp add: TranslateGraph_def)
qed

theorem unregistered_op_aborts_witness:
  "(\<forall>r. TranslateGraph ext0 [] [] foo_graph ''g'' [] [] \<noteq> Inr r)
   \<and> TranslateGraph ext0 [] [] foo_graph ''g'' [] []
       = Inl (Err INVALID_ARGUMENT ''No translation handler registered for op: f (Foo)\<newline>'')"
  using unregistered_op_aborts[of foo_graph "[]" "[]" foo_graph "op_node ''f'' ''Foo'' [] []"
      "[]" "[]" ext0 "[]" "[]" "''g''" "[]" "[]"]
  by (simp add: foo_graph_order foo_graph_split Foo_unregistered)
     (simp add: foo_graph_def op_node_def Foo_unregistered)

text \<open>
  The error is InvalidArgument, not Unimplemented: a graph of one node of kind \<open>Foo\<close>.
\<close>

theorem unregistered_op_code_counterexample:
  "\<not> (\<exists>m. TranslateGraph ext0 [] [] foo_graph ''g'' [] [] = Inl (Err UNIMPLEMENTED m))"
  by (simp add: TranslateGraph_foo_graph)

subsection \<open>Formal parameters and results\<close>





lemmas graph_defs = arg_node_def retval_node_def op_node_def producer_def



lemmas class_defs = IsSink_def IsSource_def IsControlFlow_def IsArg_def IsRetval_def



lemma Abs_registered: "map_of TRANSLATE_OP_MAP ''Abs'' = Some (UnaryOp ''Abs'')"
  by (simp add: TRANSLATE_OP_MAP_def)


lemmas driver_defs = param_step_def op_step_def result_step_def GetNodeAttr_type_def
  GetNodeAttr_int_def GetNodeAttr_string_def GetNodeAttr_bool_def TFTensorShapeToNGraphShape_def
  ng_shape_check_def dim_check_def is_dynamic_def resize_def set_needs_default_layout_def
  TranslateUnaryOp_T_def TranslateUnaryOp_def TranslateIdentityOp_def

lemma RETURN_IF_ERROR_cong_weak:
  "m = m' \<Longrightarrow> RETURN_IF_ERROR m f = RETURN_IF_ERROR m' f"
  by simp

lemmas step_defs = GetInputNodes_def ValidateInputCount_def GetInputNode_def input_edges_def
  input_node_def input_edge_def IsControlEdge_def save_def SaveNgOp_def
  ConstructNgNode_def make_shared_def infer_types_def SetTracingInfo_def get_shape_def
  get_partial_shape_def output_type_def is_static_def to_shape_def static_shape_def
  shape_size_def Let_def









subsection \<open>Order of the nodes\<close>

lemma least_by_name_None: "least_by_name xs = None \<longleftrightarrow> xs = []"
  by (induction xs) (auto split: option.splits)

lemma least_by_name_Some:
  "least_by_name xs = Some m \<Longrightarrow>
   m \<in> set xs \<and> (\<forall>n \<in> set xs. name (node_def m) \<le> name (node_def n))"
proof (induction xs arbitrary: m)
  case Nil
  then show ?case by simp
next
  case (Cons a xs)
  show ?case
  proof (cases "least_by_name xs")
    case None
    then have "xs = []" by (simp add: least_by_name_None)
    with Cons.prems None show ?thesis by simp
  next
    case (Some k)
    from Cons.IH[OF Some] have k: "k \<in> set xs"
      "\<forall>n \<in> set xs. name (node_def k) \<le> name (node_def n)" by simp_all
    show ?thesis
    proof (cases "name (node_def a) \<le> name (node_def k)")
      case True
      with Cons.prems Some have "m = a" by simp
      with True k show ?thesis by (auto intro: order_trans)
    next
      case False
      with Cons.prems Some have "m = k" by simp
      with False k show ?thesis by auto
    qed
  qed
qed

lemma least_by_name_set:
  assumes inj: "inj_on (\<lambda>n. name (node_def n)) (set xs)" and eq: "set xs = set ys"
  shows "least_by_name xs = least_by_name ys"
proof (cases "least_by_name xs")
  case None
  then have "xs = []" by (simp add: least_by_name_None)
  with eq have "ys = []" by simp
  with None show ?thesis by simp
next
  case (Some a)
  then have "xs \<noteq> []" by auto
  with eq have "ys \<noteq> []" by auto
  then obtain b where b: "least_by_name ys = Some b"
    by (cases "least_by_name ys") (auto simp: least_by_name_None)
  from least_by_name_Some[OF Some] least_by_name_Some[OF b] eq
  have "a \<in> set xs" "b \<in> set xs" "name (node_def a) \<le> name (node_def b)"
    "name (node_def b) \<le> name (node_def a)" by auto
  then have "a = b" using inj by (auto dest: inj_onD)
  with Some b show ?thesis by simp
qed

lemma ready_set:
  "set r1 = set r2 \<Longrightarrow> ready r1 = ready r2"
  by (auto simp: ready_def fun_eq_iff)

lemma distinct_names_remove1:
  "distinct (map (\<lambda>n. name (node_def n)) xs) \<Longrightarrow>
   distinct (map (\<lambda>n. name (node_def n)) (remove1 a xs))"
  by (auto simp: distinct_map intro: inj_on_diff)

lemma topo_order_perm:
  "mset r1 = mset r2 \<Longrightarrow> distinct (map (\<lambda>n. name (node_def n)) r1) \<Longrightarrow>
   topo_order k r1 = topo_order k r2"
proof (induction k arbitrary: r1 r2)
  case 0
  then show ?case by simp
next
  case (Suc k)
  from Suc.prems(1) have s: "set r1 = set r2" by (rule mset_eq_setD)
  have inj: "inj_on (\<lambda>n. name (node_def n)) (set r1)"
    using Suc.prems(2) by (simp add: distinct_map)
  have r: "ready r1 = ready r2" using s by (rule ready_set)
  have "least_by_name (filter (ready r1) r1) = least_by_name (filter (ready r2) r2)"
    using s r by (intro least_by_name_set inj_on_subset[OF inj]) auto
  moreover have "topo_order k (remove1 n r1) = topo_order k (remove1 n r2)" for n
    using Suc.prems by (intro Suc.IH) (simp_all add: distinct_names_remove1)
  ultimately show ?case by (simp split: option.splits)
qed

lemma GetReversePostOrder_perm:
  assumes "mset g1 = mset g2" "distinct (map (\<lambda>n. name (node_def n)) g1)"
  shows "GetReversePostOrder g1 = GetReversePostOrder g2"
proof -
  have "length g1 = length g2" using assms(1) by (rule mset_eq_length)
  then show ?thesis
    using topo_order_perm[OF assms] by (simp add: GetReversePostOrder_def)
qed

lemma distinct_remove1_filter: "distinct xs \<Longrightarrow> remove1 a xs = filter (\<lambda>m. a \<noteq> m) xs"
  by (simp add: distinct_remove1_removeAll removeAll_filter_not_eq)

lemma topo_order_tie_break:
  "distinct r \<Longrightarrow> topo_order k r = p @ n # q \<Longrightarrow>
   n \<in> set (filter (\<lambda>m. m \<notin> set p) r)
   \<and> ready (filter (\<lambda>m. m \<notin> set p) r) n
   \<and> (\<forall>m \<in> set (filter (\<lambda>m. m \<notin> set p) r).
         ready (filter (\<lambda>m. m \<notin> set p) r) m \<longrightarrow> name (node_def n) \<le> name (node_def m))"
proof (induction k arbitrary: r p)
  case 0
  then show ?case by simp
next
  case (Suc k)
  from Suc.prems(2) obtain a where
    a: "least_by_name (filter (ready r) r) = Some a"
    and t: "a # topo_order k (remove1 a r) = p @ n # q"
    by (auto split: option.splits)
  note l = least_by_name_Some[OF a]
  show ?case
  proof (cases p)
    case Nil
    with t have "n = a" by simp
    with l Nil show ?thesis by auto
  next
    case (Cons b p')
    with t have b: "b = a" and t': "topo_order k (remove1 a r) = p' @ n # q" by auto
    have d: "distinct (remove1 a r)" using Suc.prems(1) by simp
    have f: "filter (\<lambda>m. m \<notin> set p') (remove1 a r) = filter (\<lambda>m. m \<notin> set p) r"
      using Suc.prems(1) Cons b by (auto simp: distinct_remove1_filter intro: filter_cong)
    from Suc.IH[OF d t', unfolded f] show ?thesis .
  qed
qed

lemma split_ops_filter:
  "split_ops ns (ps, rs, ops) = Inr (ps', rs', ops') \<Longrightarrow>
   ps' = ps @ filter (\<lambda>n. \<not> IsSink n \<and> \<not> IsSource n \<and> IsArg (node_def n)) ns
   \<and> rs' = rs @ filter (\<lambda>n. \<not> IsSink n \<and> \<not> IsSource n \<and> \<not> IsArg (node_def n)
                              \<and> IsRetval (node_def n)) ns
   \<and> ops' = ops @ filter (\<lambda>n. \<not> IsSink n \<and> \<not> IsSource n \<and> \<not> IsArg (node_def n)
                                \<and> \<not> IsRetval (node_def n)) ns"
proof (induction ns arbitrary: ps rs ops)
  case Nil
  then show ?case by simp
next
  case (Cons n ns)
  then show ?case by (auto split: if_splits dest!: Cons.IH)
qed

text \<open>
  C5. Two input graphs with the same nodes (names unique) in a different order give the
  same result: the same function, result list and target nodes, or the same failure. The
  driver reads the graph only through the topological order, which is the same for both:
  every node of it is ready when its turn comes (its producers stand before it) and has the
  least name of the nodes ready then. The split keeps that order, so the interior operators
  are handed to their handlers in it.
\<close>

theorem TranslateGraph_node_order:
  assumes "mset g1 = mset g2" "distinct (map (\<lambda>n. name (node_def n)) g1)"
  shows "TranslateGraph x inputs sim g1 nm rl tfi = TranslateGraph x inputs sim g2 nm rl tfi
       \<and> GetReversePostOrder g1 = GetReversePostOrder g2
       \<and> (\<forall>p n q. GetReversePostOrder g1 = p @ n # q \<longrightarrow>
            n \<in> set (filter (\<lambda>m. m \<notin> set p) g1)
            \<and> ready (filter (\<lambda>m. m \<notin> set p) g1) n
            \<and> (\<forall>m \<in> set (filter (\<lambda>m. m \<notin> set p) g1).
                  ready (filter (\<lambda>m. m \<notin> set p) g1) m \<longrightarrow>
                  name (node_def n) \<le> name (node_def m)))
       \<and> (\<forall>ps rs ops. split_ops (GetReversePostOrder g1) ([], [], []) = Inr (ps, rs, ops) \<longrightarrow>
            ops = filter (\<lambda>n. \<not> IsSink n \<and> \<not> IsSource n \<and> \<not> IsArg (node_def n)
                               \<and> \<not> IsRetval (node_def n)) (GetReversePostOrder g1))"
proof (intro conjI allI impI)
  show "TranslateGraph x inputs sim g1 nm rl tfi = TranslateGraph x inputs sim g2 nm rl tfi"
    by (simp only: TranslateGraph_def GetReversePostOrder_perm[OF assms])
  show "GetReversePostOrder g1 = GetReversePostOrder g2"
    by (rule GetReversePostOrder_perm[OF assms])
next
  fix p n q
  assume o: "GetReversePostOrder g1 = p @ n # q"
  have d: "distinct g1" using assms(2) by (simp add: distinct_map)
  from topo_order_tie_break[OF d o[unfolded GetReversePostOrder_def]]
  show "n \<in> set (filter (\<lambda>m. m \<notin> set p) g1)"
    and "ready (filter (\<lambda>m. m \<notin> set p) g1) n"
    and "\<forall>m \<in> set (filter (\<lambda>m. m \<notin> set p) g1).
           ready (filter (\<lambda>m. m \<notin> set p) g1) m \<longrightarrow> name (node_def n) \<le> name (node_def m)"
    by blast+
next
  fix ps rs ops
  assume "split_ops (GetReversePostOrder g1) ([], [], []) = Inr (ps, rs, ops)"
  from split_ops_filter[OF this]
  show "ops = filter (\<lambda>n. \<not> IsSink n \<and> \<not> IsSource n \<and> \<not> IsArg (node_def n)
                               \<and> \<not> IsRetval (node_def n)) (GetReversePostOrder g1)"
    by simp
qed

lemma sib_graph_order:
  "GetReversePostOrder sib_graph =
     [arg_node ''x'' 0, op_node ''a'' ''Abs'' [] [''x''], op_node ''c'' ''Exp'' [] [''x''],
      retval_node ''ra'' 0 ''a'', retval_node ''rc'' 1 ''c'']"
  by (simp add: GetReversePostOrder_def sib_graph_def graph_defs ready_def numeral_eq_Suc)

lemma sib_graph_split:
  "split_ops [arg_node ''x'' 0, op_node ''a'' ''Abs'' [] [''x''], op_node ''c'' ''Exp'' [] [''x''],
      retval_node ''ra'' 0 ''a'', retval_node ''rc'' 1 ''c''] ([], [], [])
   = Inr ([arg_node ''x'' 0], [retval_node ''ra'' 0 ''a'', retval_node ''rc'' 1 ''c''],
          [op_node ''a'' ''Abs'' [] [''x''], op_node ''c'' ''Exp'' [] [''x'']])"
  by (simp add: graph_defs class_defs)

lemma Exp_registered: "map_of TRANSLATE_OP_MAP ''Exp'' = Some (UnaryOp ''Exp'')"
  by (simp add: TRANSLATE_OP_MAP_def)

lemma sib_graph_result:
  "case TranslateGraph ext0 [[1, 3, 2, 2]] [] sib_graph ''g'' [] [] of
     Inl e \<Rightarrow> False
   | Inr (f, rl, h) \<Rightarrow>
       fn_parameters f = [0] \<and> fn_results f = [3, 4] \<and> rl = [Some 3, Some 4]
       \<and> map ng_type h = [''Parameter'', ''Abs'', ''Exp'', ''Result'', ''Result'']
       \<and> map ng_inputs h = [[], [(0, 0)], [(0, 0)], [(1, 0)], [(2, 0)]]
       \<and> map provenance_tags h = [{[]}, {''a''}, {''c''}, {''ra''}, {''rc''}]"
  apply (simp only: TranslateGraph_def sib_graph_order Let_def)
  apply (simp only: sib_graph_split RETURN_IF_ERROR_simps prod.case)
  apply (simp add: graph_defs driver_defs step_defs ext0_def Abs_registered Exp_registered
        cong: RETURN_IF_ERROR_cong_weak)
  done

text \<open>
  The handlers themselves depend on the order they are called in: the two siblings
  translated in the other order give another store.
\<close>

lemma translate_ops_siblings:
  "translate_ops ext0 [] [op_node ''a'' ''Abs'' [] [''x''], op_node ''c'' ''Exp'' [] [''x'']] s_x
     \<noteq> translate_ops ext0 [] [op_node ''c'' ''Exp'' [] [''x''], op_node ''a'' ''Abs'' [] [''x'']] s_x"
  by (simp add: s_x_def param_node_def graph_defs driver_defs step_defs ext0_def Abs_registered
        Exp_registered)

text \<open>
  Two unrelated siblings, \<open>a\<close> and \<open>c\<close>, that both read the parameter \<open>x\<close>, listed in
  either order: the sibling of lesser name is visited first, and its target node stands
  first in the store.
\<close>

theorem TranslateGraph_node_order_witness:
  "mset sib_graph = mset sib_graph' \<and> sib_graph \<noteq> sib_graph'
   \<and> TranslateGraph ext0 [[1, 3, 2, 2]] [] sib_graph ''g'' [] []
      = TranslateGraph ext0 [[1, 3, 2, 2]] [] sib_graph' ''g'' [] []
   \<and> GetReversePostOrder sib_graph' =
       [arg_node ''x'' 0, op_node ''a'' ''Abs'' [] [''x''], op_node ''c'' ''Exp'' [] [''x''],
        retval_node ''ra'' 0 ''a'', retval_node ''rc'' 1 ''c'']
   \<and> (case TranslateGraph ext0 [[1, 3, 2, 2]] [] sib_graph' ''g'' [] [] of
         Inl e \<Rightarrow> False
       | Inr (f, rl, h) \<Rightarrow>
           fn_parameters f = [0] \<and> fn_results f = [3, 4] \<and> rl = [Some 3, Some 4]
           \<and> map ng_type h = [''Parameter'', ''Abs'', ''Exp'', ''Result'', ''Result'']
           \<and> map ng_inputs h = [[], [(0, 0)], [(0, 0)], [(1, 0)], [(2, 0)]]
           \<and> map provenance_tags h = [{[]}, {''a''}, {''c''}, {''ra''}, {''rc''}])
   \<and> translate_ops ext0 []
        [op_node ''a'' ''Abs'' [] [''x''], op_node ''c'' ''Exp'' [] [''x'']] s_x
      \<noteq> translate_ops ext0 []
        [op_node ''c'' ''Exp'' [] [''x''], op_node ''a'' ''Abs'' [] [''x'']] s_x"
proof -
  have m: "mset sib_graph = mset sib_graph'"
    by (simp add: sib_graph_def sib_graph'_def)
  have d: "distinct (map (\<lambda>n. name (node_def n)) sib_graph)"
    by (simp add: sib_graph_def graph_defs)
  have n: "sib_graph \<noteq> sib_graph'"
    by (simp add: sib_graph_def sib_graph'_def graph_defs)
  note t = TranslateGraph_node_order[OF m d, of ext0 "[[1, 3, 2, 2]]" "[]" "''g''" "[]" "[]"]
  from t have e: "TranslateGraph ext0 [[1, 3, 2, 2]] [] sib_graph ''g'' [] []
      = TranslateGraph ext0 [[1, 3, 2, 2]] [] sib_graph' ''g'' [] []"
    and o: "GetReversePostOrder sib_graph = GetReversePostOrder sib_graph'"
    by blast+
  show ?thesis
    using m n e sib_graph_order[unfolded o] sib_graph_result[unfolded e] translate_ops_siblings
    by (intro conjI)
qed

subsection \<open>Fused operators and their sequences\<close>

lemma is_unimplemented_simps [simp]:
  "is_unimplemented (Err c m) = (c = UNIMPLEMENTED)"
  "\<not> is_unimplemented (Thrown w)"
  "\<not> is_unimplemented Aborted"
  by (simp_all add: is_unimplemented_def)

lemma no_unimplemented_simps [simp]:
  "no_unimplemented (Inr v)"
  "no_unimplemented (Inl e) = (\<not> is_unimplemented e)"
  by (simp_all add: no_unimplemented_def)


lemma no_unimplemented_GetNodeAttr [simp]:
  "no_unimplemented (GetNodeAttr_int as k)"
  "no_unimplemented (GetNodeAttr_strings as k)"
  "no_unimplemented (GetNodeAttr_string as k)"
  "no_unimplemented (GetNodeAttr_bool as k)"
  "no_unimplemented (GetNodeAttr_float as k)"
  "no_unimplemented (GetNodeAttr_ints as k)"
  by (auto simp: GetNodeAttr_int_def GetNodeAttr_strings_def GetNodeAttr_string_def
        GetNodeAttr_bool_def GetNodeAttr_float_def GetNodeAttr_ints_def attr_missing_def
        attr_mismatch_def split: option.splits AttrValue.splits)

lemma no_unimplemented_place_edges [simp]: "no_unimplemented (place_edges k es slots)"
  by (induction es arbitrary: slots) auto

lemma no_unimplemented_input_edges [simp]: "no_unimplemented (input_edges n)"
proof (cases "place_edges (num_inputs n) (in_edges n) (replicate (num_inputs n) None)")
  case (Inl e)
  with no_unimplemented_place_edges[of "num_inputs n" "in_edges n" "replicate (num_inputs n) None"]
  show ?thesis by (simp add: input_edges_def)
next
  case (Inr slots)
  then show ?thesis by (simp add: input_edges_def)
qed

lemma no_unimplemented_input_node [simp]: "no_unimplemented (input_node n idx)"
  by (auto simp: input_node_def input_edge_def split: option.splits)

lemma no_unimplemented_GetInputNode [simp]: "no_unimplemented (GetInputNode m op' i)"
proof (cases "input_edges op'")
  case (Inl e)
  with no_unimplemented_input_edges[of op'] show ?thesis by (simp add: GetInputNode_def)
next
  case (Inr edges)
  show ?thesis
  proof (cases "input_node op' (int i)")
    case (Inl e)
    with no_unimplemented_input_node[of op' "int i"] Inr show ?thesis
      by (simp add: GetInputNode_def)
  next
    case r: (Inr d)
    with Inr show ?thesis by (simp add: GetInputNode_def Let_def split: option.splits)
  qed
qed

lemma no_unimplemented_GetInputNodes_from [simp]:
  "no_unimplemented (GetInputNodes_from m op' i k)"
proof (induction k arbitrary: i)
  case 0
  then show ?case by simp
next
  case (Suc k)
  show ?case
  proof (cases "GetInputNode m op' i")
    case (Inl e)
    with no_unimplemented_GetInputNode[of m op' i] show ?thesis by simp
  next
    case (Inr r)
    then show ?thesis
      using Suc[of "i + 1"] by (cases "GetInputNodes_from m op' (i + 1) k") auto
  qed
qed

lemma no_unimplemented_GetInputNodes [simp]: "no_unimplemented (GetInputNodes m op' k)"
  by (simp add: GetInputNodes_def ValidateInputCount_def)

lemma no_unimplemented_ConstructNgNode [simp]:
  "no_unimplemented (ConstructNgNode ifn ty tag ins args h)"
  "no_unimplemented (make_shared ifn ty ins args h)"
  "no_unimplemented (get_shape h out)"
  by (auto simp: ConstructNgNode_def make_shared_def get_shape_def split: option.splits)






lemma isOK_simps [simp]: "isOK (Inr v)" "\<not> isOK (Inl e)"
  by (simp_all add: isOK_def)






















end
